theory Spec2Isabelle
  imports Main "HOL-Library.AList" "HOL-Library.Sublist"
begin

section \<open>Values, exceptions and dictionaries\<close>

text \<open>
  The daemon of mcp-telegram receives JSON bodies over HTTP and hands their fields,
  unconverted, to the methods of \<open>UserClient\<close>. A parsed JSON value is modelled by
  \<open>json\<close>; a Python \<open>dict\<close> by an association list in insertion order (a parsed
  dictionary never repeats a key). JSON numbers with a fraction are not modelled.

  A Python \<open>str\<close> that comes from a request or from Telegram is a list of Unicode
  code points, \<open>unicode\<close>; \<open>lit\<close> turns the ASCII literals of the code into text.
  The keys of a dictionary are only ever compared with such literals and stay \<open>string\<close>.
\<close>

type_synonym unicode = "nat list"

definition lit :: "string \<Rightarrow> unicode" where
  "lit s = map of_char s"

datatype json =
    JNull
  | JBool bool
  | JInt int
  | JStr unicode
  | JList "json list"
  | JObj "(string \<times> json) list"

type_synonym dict = "(string \<times> json) list"

text \<open>Python's truth value of a value: \<open>not v\<close> is \<open>\<not> truthy v\<close>.\<close>

fun truthy :: "json \<Rightarrow> bool" where
  "truthy JNull = False"
| "truthy (JBool b) = b"
| "truthy (JInt n) = (n \<noteq> 0)"
| "truthy (JStr s) = (s \<noteq> [])"
| "truthy (JList xs) = (xs \<noteq> [])"
| "truthy (JObj kvs) = (kvs \<noteq> [])"

text \<open>\<open>type(v).__name__\<close>, as Python's error messages print it.\<close>

fun type_name :: "json \<Rightarrow> string" where
  "type_name JNull = ''NoneType''"
| "type_name (JBool b) = ''bool''"
| "type_name (JInt n) = ''int''"
| "type_name (JStr s) = ''str''"
| "type_name (JList xs) = ''list''"
| "type_name (JObj kvs) = ''dict''"

text \<open>
  Exceptions carry their class and the text \<open>str(e)\<close> gives. \<open>BackendError\<close> stands for
  whatever the Telethon client raises (a network or RPC error); its text is opaque.
  Every class is a subclass of \<open>Exception\<close>, so \<open>except Exception\<close> catches every
  \<open>exn\<close>; what is not an \<open>Exception\<close> (a cancellation, a keyboard interrupt) is
  not modelled.
\<close>

datatype exn_class =
    RuntimeError
  | FileNotFoundError
  | ValueError
  | TypeError
  | AttributeError
  | BackendError

datatype exn = Exn exn_class unicode

fun str_exn :: "exn \<Rightarrow> unicode" where
  "str_exn (Exn c m) = m"

text \<open>\<open>d.get(k)\<close> and \<open>d.get(k, default)\<close>, \<open>d[k] = v\<close>, and \<open>{**d, **e}\<close>.\<close>

definition dict_get :: "dict \<Rightarrow> string \<Rightarrow> json" where
  "dict_get d k = (case map_of d k of None \<Rightarrow> JNull | Some v \<Rightarrow> v)"

definition dict_get_default :: "dict \<Rightarrow> string \<Rightarrow> json \<Rightarrow> json" where
  "dict_get_default d k dflt = (case map_of d k of None \<Rightarrow> dflt | Some v \<Rightarrow> v)"

definition dict_set :: "dict \<Rightarrow> string \<Rightarrow> json \<Rightarrow> dict" where
  "dict_set d k v = AList.update k v d"

fun dict_merge :: "dict \<Rightarrow> dict \<Rightarrow> dict" where
  "dict_merge d [] = d"
| "dict_merge d ((k, v) # e) = dict_merge (dict_set d k v) e"

definition opt_str :: "unicode option \<Rightarrow> json" where
  "opt_str x = (case x of None \<Rightarrow> JNull | Some s \<Rightarrow> JStr s)"

definition opt_int :: "int option \<Rightarrow> json" where
  "opt_int x = (case x of None \<Rightarrow> JNull | Some n \<Rightarrow> JInt n)"

section \<open>The Telegram side and the state of the client\<close>

text \<open>Objects the Telethon client returns, with the attributes the code reads.\<close>

record tl_user =
  user_id :: int
  first_name :: "unicode option"
  last_name :: "unicode option"
  username :: "unicode option"
  phone :: "unicode option"

record tl_sent =
  sent_id :: int
  sent_chat_id :: int

text \<open>
  A message's media: a photo, a document with its attributes (the document itself may be
  absent), or anything else. An audio attribute carries its \<open>voice\<close> flag.
\<close>

datatype tl_attribute =
    DocumentAttributeFilename unicode
  | DocumentAttributeAudio bool
  | DocumentAttributeOther

datatype tl_media =
    MessageMediaPhoto
  | MessageMediaDocument "tl_attribute list option"
  | MessageMediaOther

text \<open>
  What \<open>iter_messages\<close> yields: a real message (identifier, date as its ISO-8601 text,
  text, sender, media), a service message, or an empty placeholder.
\<close>

record tl_msg =
  msg_id :: int
  msg_date :: "unicode option"
  msg_text :: "unicode option"
  msg_sender_id :: "int option"
  msg_media :: "tl_media option"

datatype tl_message =
    Message tl_msg
  | MessageService int
  | MessageEmpty int

text \<open>A dialog and the entity behind it (a user with its handle, a chat, a channel).\<close>

datatype tl_entity =
    User "unicode option"
  | Chat
  | Channel bool
  | EntityOther

record tl_dialog =
  dialog_id :: int
  dialog_name :: "unicode option"
  unread_count :: int
  dialog_entity :: tl_entity

text \<open>A message fetched by identifier, as \<open>download_media\<close> reads it.\<close>

record tl_fetched =
  fetched_media :: "tl_media option"

text \<open>
  Every request the code makes of the \<open>TelegramClient\<close>, with its arguments.
  \<open>Construct\<close> is the constructor call, which opens the session file.
\<close>

datatype call =
    Construct
  | Connect
  | Is_user_authorized
  | Get_me
  | Send_message json json json
  | Send_file json json json json
  | Iter_messages json json
  | Iter_dialogs json
  | Get_message_by_id json json
  | Download_media json
  | Edit_message json json json
  | Delete_messages json json

text \<open>
  What the Telegram side answers is a parameter of the model: each request either raises
  (\<open>Inl\<close>, or \<open>Some e\<close> where nothing is returned) or returns. \<open>delete_result\<close> is the
  number of messages the backend says it removed. \<open>path_exists\<close> is \<open>Path(p).exists()\<close>,
  \<open>resolve_path\<close> is \<open>str(Path(p).resolve())\<close>, \<open>format_value\<close> is the text an
  f-string prints for a value, and \<open>str_lower\<close> is Python's \<open>str.lower\<close>, whatever
  it does to a text.
\<close>

record backend =
  construct_error :: "exn option"
  is_configured :: bool
  connect_error :: "exn option"
  authorized :: "exn + bool"
  me :: "exn + tl_user option"
  send_message_result :: "json \<Rightarrow> json \<Rightarrow> json \<Rightarrow> exn + tl_sent"
  send_file_result :: "json \<Rightarrow> json \<Rightarrow> json \<Rightarrow> json \<Rightarrow> exn + tl_sent"
  edit_error :: "json \<Rightarrow> json \<Rightarrow> json \<Rightarrow> exn option"
  delete_result :: "json \<Rightarrow> json \<Rightarrow> exn + nat"
  messages_result :: "json \<Rightarrow> json \<Rightarrow> exn + tl_message list"
  dialogs_result :: "json \<Rightarrow> exn + tl_dialog list"
  fetch_result :: "json \<Rightarrow> json \<Rightarrow> exn + tl_fetched option"
  download_result :: "json \<Rightarrow> json \<Rightarrow> json \<Rightarrow> exn + unicode option"
  path_exists :: "unicode \<Rightarrow> bool"
  resolve_path :: "unicode \<Rightarrow> unicode"
  format_value :: "json \<Rightarrow> unicode"
  str_lower :: "unicode \<Rightarrow> unicode"

text \<open>
  The mutable state: whether the daemon's global \<open>_client\<close> is set, whether
  \<open>UserClient._client\<close> is set, whether the transport is connected, and the requests
  made so far, oldest first.
\<close>

record state =
  have_user_client :: bool
  have_tg_client :: bool
  connected :: bool
  trace :: "call list"

definition issue :: "call \<Rightarrow> state \<Rightarrow> state" where
  "issue c s = s\<lparr>trace := trace s @ [c]\<rparr>"

section \<open>UserClient (user/client.py)\<close>

text \<open>
  The \<open>client\<close> property: constructs the \<open>TelegramClient\<close> on first use, raising when the
  account is not configured or when the constructor itself raises.
\<close>

definition client :: "backend \<Rightarrow> state \<Rightarrow> exn option \<times> state" where
  "client be s =
    (if have_tg_client s then (None, s)
     else if \<not> is_configured be
       then (Some (Exn RuntimeError (lit ''User not configured. Run 'tg login' first.'')), s)
     else (case construct_error be of
             Some e \<Rightarrow> (Some e, issue Construct s)
           | None \<Rightarrow> (None, (issue Construct s)\<lparr>have_tg_client := True\<rparr>)))"

text \<open>\<open>connect\<close>: connects unless the transport is connected already.\<close>

definition connect :: "backend \<Rightarrow> state \<Rightarrow> exn option \<times> state" where
  "connect be s =
    (case client be s of
       (Some e, s1) \<Rightarrow> (Some e, s1)
     | (None, s1) \<Rightarrow>
         if connected s1 then (None, s1)
         else (case connect_error be of
                 Some e \<Rightarrow> (Some e, issue Connect s1)
               | None \<Rightarrow> (None, (issue Connect s1)\<lparr>connected := True\<rparr>)))"

definition is_authorized :: "backend \<Rightarrow> state \<Rightarrow> (exn + bool) \<times> state" where
  "is_authorized be s =
    (case connect be s of
       (Some e, s1) \<Rightarrow> (Inl e, s1)
     | (None, s1) \<Rightarrow> (authorized be, issue Is_user_authorized s1))"

definition get_me :: "backend \<Rightarrow> state \<Rightarrow> (exn + dict) \<times> state" where
  "get_me be s =
    (case connect be s of
       (Some e, s1) \<Rightarrow> (Inl e, s1)
     | (None, s1) \<Rightarrow>
         (case me be of
            Inl e \<Rightarrow> (Inl e, issue Get_me s1)
          | Inr None \<Rightarrow> (Inr [], issue Get_me s1)
          | Inr (Some u) \<Rightarrow>
              (Inr [(''id'', JInt (user_id u)),
                    (''first_name'', opt_str (first_name u)),
                    (''last_name'', opt_str (last_name u)),
                    (''username'', opt_str (username u)),
                    (''phone'', opt_str (phone u))],
               issue Get_me s1)))"

definition quoted :: "string \<Rightarrow> string" where
  "quoted s = [CHR 0x27] @ s @ [CHR 0x27]"

text \<open>\<open>len(v)\<close>: defined on strings, lists and dictionaries, a \<open>TypeError\<close> otherwise.\<close>

definition py_len :: "json \<Rightarrow> exn + nat" where
  "py_len v =
    (case v of
       JStr s \<Rightarrow> Inr (length s)
     | JList xs \<Rightarrow> Inr (length xs)
     | JObj kvs \<Rightarrow> Inr (length kvs)
     | _ \<Rightarrow> Inl (Exn TypeError
              (lit (''object of type '' @ quoted (type_name v) @ '' has no len()''))))"

definition delete_messages :: "backend \<Rightarrow> json \<Rightarrow> json \<Rightarrow> state \<Rightarrow> (exn + dict) \<times> state" where
  "delete_messages be entity message_ids s =
    (case connect be s of
       (Some e, s1) \<Rightarrow> (Inl e, s1)
     | (None, s1) \<Rightarrow>
         (case delete_result be entity message_ids of
            Inl e \<Rightarrow> (Inl e, issue (Delete_messages entity message_ids) s1)
          | Inr removed \<Rightarrow>
              (case py_len message_ids of
                 Inl e \<Rightarrow> (Inl e, issue (Delete_messages entity message_ids) s1)
               | Inr n \<Rightarrow>
                   (Inr [(''deleted'', JInt (int n))],
                    issue (Delete_messages entity message_ids) s1))))"

definition send_message ::
  "backend \<Rightarrow> json \<Rightarrow> json \<Rightarrow> json \<Rightarrow> state \<Rightarrow> (exn + dict) \<times> state" where
  "send_message be entity message reply_to s =
    (case connect be s of
       (Some e, s1) \<Rightarrow> (Inl e, s1)
     | (None, s1) \<Rightarrow>
         (case send_message_result be entity message reply_to of
            Inl e \<Rightarrow> (Inl e, issue (Send_message entity message reply_to) s1)
          | Inr r \<Rightarrow>
              (Inr [(''message_id'', JInt (sent_id r)), (''chat_id'', JInt (sent_chat_id r))],
               issue (Send_message entity message reply_to) s1)))"

text \<open>
  \<open>Path(v)\<close> accepts a string and raises \<open>TypeError\<close> for any other JSON value.
\<close>

definition as_path :: "json \<Rightarrow> exn + unicode" where
  "as_path v =
    (case v of
       JStr p \<Rightarrow> Inr p
     | _ \<Rightarrow> Inl (Exn TypeError
              (lit (''expected str, bytes or os.PathLike object, not '' @ type_name v))))"

text \<open>
  \<open>send_file\<close> connects first, then checks that the path exists, then uploads.
\<close>

definition send_file ::
  "backend \<Rightarrow> json \<Rightarrow> json \<Rightarrow> json \<Rightarrow> json \<Rightarrow> state \<Rightarrow> (exn + dict) \<times> state" where
  "send_file be entity file_path caption voice s =
    (case connect be s of
       (Some e, s1) \<Rightarrow> (Inl e, s1)
     | (None, s1) \<Rightarrow>
         (case as_path file_path of
            Inl e \<Rightarrow> (Inl e, s1)
          | Inr p \<Rightarrow>
              if \<not> path_exists be p
                then (Inl (Exn FileNotFoundError (lit ''File not found: '' @ p)), s1)
              else (case send_file_result be entity file_path caption voice of
                      Inl e \<Rightarrow> (Inl e, issue (Send_file entity file_path caption voice) s1)
                    | Inr r \<Rightarrow>
                        (Inr [(''message_id'', JInt (sent_id r)),
                              (''chat_id'', JInt (sent_chat_id r))],
                         issue (Send_file entity file_path caption voice) s1))))"

subsection \<open>get_messages\<close>

text \<open>The loop over a document's attributes: later attributes overwrite earlier ones.\<close>

fun scan_attributes :: "tl_attribute list \<Rightarrow> dict \<Rightarrow> dict" where
  "scan_attributes [] d = d"
| "scan_attributes (DocumentAttributeFilename n # as) d =
     scan_attributes as (dict_set d ''file_name'' (JStr n))"
| "scan_attributes (DocumentAttributeAudio v # as) d =
     scan_attributes as (dict_set d ''media_type'' (JStr (lit (if v then ''voice'' else ''audio''))))"
| "scan_attributes (DocumentAttributeOther # as) d = scan_attributes as d"

fun media_fields :: "tl_media option \<Rightarrow> dict \<Rightarrow> dict" where
  "media_fields None d = d"
| "media_fields (Some MessageMediaPhoto) d = dict_set d ''media_type'' (JStr (lit ''photo''))"
| "media_fields (Some (MessageMediaDocument None)) d =
     dict_set d ''media_type'' (JStr (lit ''document''))"
| "media_fields (Some (MessageMediaDocument (Some as))) d =
     scan_attributes as (dict_set d ''media_type'' (JStr (lit ''document'')))"
| "media_fields (Some MessageMediaOther) d = dict_set d ''media_type'' (JStr (lit ''other''))"

text \<open>
  \<open>is_service\<close> is the test \<open>isinstance(msg, MessageService | MessageEmpty)\<close>;
  \<open>msg_data\<close> is the dictionary built for a message that passes it.
\<close>

fun is_service :: "tl_message \<Rightarrow> bool" where
  "is_service (Message m) = False"
| "is_service (MessageService i) = True"
| "is_service (MessageEmpty i) = True"

definition msg_data :: "tl_msg \<Rightarrow> dict" where
  "msg_data m =
     media_fields (msg_media m)
       [(''id'', JInt (msg_id m)),
        (''date'', opt_str (msg_date m)),
        (''text'', JStr (case msg_text m of None \<Rightarrow> [] | Some t \<Rightarrow> t)),
        (''from_id'', opt_int (msg_sender_id m)),
        (''has_media'', JBool (msg_media m \<noteq> None))]"

text \<open>The loop of \<open>get_messages\<close>, with the list built so far.\<close>

fun collect_messages :: "tl_message list \<Rightarrow> dict list \<Rightarrow> dict list" where
  "collect_messages [] messages = messages"
| "collect_messages (MessageService i # rest) messages = collect_messages rest messages"
| "collect_messages (MessageEmpty i # rest) messages = collect_messages rest messages"
| "collect_messages (Message m # rest) messages =
     collect_messages rest (messages @ [msg_data m])"

definition get_messages ::
  "backend \<Rightarrow> json \<Rightarrow> json \<Rightarrow> state \<Rightarrow> (exn + dict list) \<times> state" where
  "get_messages be entity limit s =
    (case connect be s of
       (Some e, s1) \<Rightarrow> (Inl e, s1)
     | (None, s1) \<Rightarrow>
         (case messages_result be entity limit of
            Inl e \<Rightarrow> (Inl e, issue (Iter_messages entity limit) s1)
          | Inr stream \<Rightarrow>
              (Inr (collect_messages stream []), issue (Iter_messages entity limit) s1)))"

subsection \<open>search_dialogs\<close>

text \<open>The substring test \<open>needle in haystack\<close>.\<close>

fun contains :: "unicode \<Rightarrow> unicode \<Rightarrow> bool" where
  "contains needle [] = (needle = [])"
| "contains needle (c # cs) = (prefix needle (c # cs) \<or> contains needle cs)"

fun entity_fields :: "tl_entity \<Rightarrow> dict \<Rightarrow> dict" where
  "entity_fields (User handle) d =
     dict_set (dict_set d ''type'' (JStr (lit ''user''))) ''username'' (opt_str handle)"
| "entity_fields Chat d = dict_set d ''type'' (JStr (lit ''group''))"
| "entity_fields (Channel broadcast) d =
     dict_set d ''type'' (JStr (lit (if broadcast then ''channel'' else ''supergroup'')))"
| "entity_fields EntityOther d = d"

definition dialog_data :: "tl_dialog \<Rightarrow> dict" where
  "dialog_data dialog =
     entity_fields (dialog_entity dialog)
       [(''id'', JInt (dialog_id dialog)),
        (''name'', opt_str (dialog_name dialog)),
        (''unread_count'', JInt (unread_count dialog))]"

text \<open>
  The filter \<open>if query: ... if query_lower not in name_lower: continue\<close>: whether the
  dialog is kept. Both the display name and the query go through \<open>str.lower\<close>, here
  the parameter \<open>lower\<close>. A truthy query that is not a string has no \<open>lower\<close>.
\<close>

definition name_lower :: "(unicode \<Rightarrow> unicode) \<Rightarrow> tl_dialog \<Rightarrow> unicode" where
  "name_lower lower dialog = lower (case dialog_name dialog of None \<Rightarrow> [] | Some n \<Rightarrow> n)"

definition keeps :: "(unicode \<Rightarrow> unicode) \<Rightarrow> json \<Rightarrow> tl_dialog \<Rightarrow> exn + bool" where
  "keeps lower query dialog =
    (if \<not> truthy query then Inr True
     else (case query of
             JStr q \<Rightarrow> Inr (contains (lower q) (name_lower lower dialog))
           | _ \<Rightarrow> Inl (Exn AttributeError
                    (lit (quoted (type_name query) @ '' object has no attribute ''
                          @ quoted ''lower'')))))"

text \<open>The test \<open>len(dialogs) >= limit\<close>: an integer or a boolean compares, others raise.\<close>

definition reached :: "nat \<Rightarrow> json \<Rightarrow> exn + bool" where
  "reached n limit =
    (case limit of
       JInt k \<Rightarrow> Inr (int n \<ge> k)
     | JBool b \<Rightarrow> Inr (int n \<ge> (if b then 1 else 0))
     | _ \<Rightarrow> Inl (Exn TypeError
              (lit (quoted ''>='' @ '' not supported between instances of '' @ quoted ''int''
                    @ '' and '' @ quoted (type_name limit)))))"

text \<open>The loop of \<open>search_dialogs\<close> over the stream, with the list built so far.\<close>

fun scan_dialogs ::
  "(unicode \<Rightarrow> unicode) \<Rightarrow> json \<Rightarrow> json \<Rightarrow> tl_dialog list \<Rightarrow> dict list \<Rightarrow> exn + dict list" where
  "scan_dialogs lower query limit [] dialogs = Inr dialogs"
| "scan_dialogs lower query limit (dialog # rest) dialogs =
    (case keeps lower query dialog of
       Inl e \<Rightarrow> Inl e
     | Inr False \<Rightarrow> scan_dialogs lower query limit rest dialogs
     | Inr True \<Rightarrow>
         (case reached (length (dialogs @ [dialog_data dialog])) limit of
            Inl e \<Rightarrow> Inl e
          | Inr True \<Rightarrow> Inr (dialogs @ [dialog_data dialog])
          | Inr False \<Rightarrow>
              scan_dialogs lower query limit rest (dialogs @ [dialog_data dialog])))"

definition search_dialogs ::
  "backend \<Rightarrow> json \<Rightarrow> json \<Rightarrow> state \<Rightarrow> (exn + dict list) \<times> state" where
  "search_dialogs be query limit s =
    (case connect be s of
       (Some e, s1) \<Rightarrow> (Inl e, s1)
     | (None, s1) \<Rightarrow>
         (case dialogs_result be limit of
            Inl e \<Rightarrow> (Inl e, issue (Iter_dialogs limit) s1)
          | Inr stream \<Rightarrow>
              (scan_dialogs (str_lower be) query limit stream [],
               issue (Iter_dialogs limit) s1)))"

subsection \<open>download_media, edit_message\<close>

definition download_media ::
  "backend \<Rightarrow> json \<Rightarrow> json \<Rightarrow> json \<Rightarrow> state \<Rightarrow> (exn + dict) \<times> state" where
  "download_media be entity mid save_path s =
    (case connect be s of
       (Some e, s1) \<Rightarrow> (Inl e, s1)
     | (None, s1) \<Rightarrow>
         (case fetch_result be entity mid of
            Inl e \<Rightarrow> (Inl e, issue (Get_message_by_id entity mid) s1)
          | Inr None \<Rightarrow>
              (Inl (Exn ValueError (lit ''Message '' @ format_value be mid @ lit '' not found'')),
               issue (Get_message_by_id entity mid) s1)
          | Inr (Some message) \<Rightarrow>
              if fetched_media message = None
                then (Inl (Exn ValueError
                        (lit ''Message '' @ format_value be mid @ lit '' has no media'')),
                      issue (Get_message_by_id entity mid) s1)
              else (case download_result be entity mid save_path of
                      Inl e \<Rightarrow>
                        (Inl e,
                         issue (Download_media save_path) (issue (Get_message_by_id entity mid) s1))
                    | Inr None \<Rightarrow>
                        (Inl (Exn ValueError (lit ''Failed to download media'')),
                         issue (Download_media save_path) (issue (Get_message_by_id entity mid) s1))
                    | Inr (Some downloaded) \<Rightarrow>
                        if downloaded = []
                          then (Inl (Exn ValueError (lit ''Failed to download media'')),
                                issue (Download_media save_path)
                                  (issue (Get_message_by_id entity mid) s1))
                        else (Inr [(''path'', JStr (resolve_path be downloaded))],
                              issue (Download_media save_path)
                                (issue (Get_message_by_id entity mid) s1)))))"

definition edit_message ::
  "backend \<Rightarrow> json \<Rightarrow> json \<Rightarrow> json \<Rightarrow> state \<Rightarrow> (exn + dict) \<times> state" where
  "edit_message be entity mid text s =
    (case connect be s of
       (Some e, s1) \<Rightarrow> (Inl e, s1)
     | (None, s1) \<Rightarrow>
         (case edit_error be entity mid text of
            Some e \<Rightarrow> (Inl e, issue (Edit_message entity mid text) s1)
          | None \<Rightarrow> (Inr [(''message_id'', mid)], issue (Edit_message entity mid text) s1)))"

section \<open>The control server (daemon.py)\<close>

text \<open>
  A response is its HTTP status and its JSON body. A request is what
  \<open>await request.json()\<close> gives: a parsed value, or the exception it raises on a body
  that is not JSON.
\<close>

record response =
  status :: nat
  body :: dict

definition json_response :: "dict \<Rightarrow> nat \<Rightarrow> response" where
  "json_response d st = \<lparr>status = st, body = d\<rparr>"

definition required_response :: "string \<Rightarrow> response" where
  "required_response msg =
     json_response [(''ok'', JBool False), (''error'', JStr (lit msg))] 400"

definition error_response :: "exn \<Rightarrow> response" where
  "error_response e =
     json_response [(''ok'', JBool False), (''error'', JStr (str_exn e))] 500"

definition ok_response :: "dict \<Rightarrow> response" where
  "ok_response result = json_response (dict_merge [(''ok'', JBool True)] result) 200"

text \<open>
  The handlers call \<open>data.get\<close>, which only a dictionary has: a body that parsed to
  anything else raises \<open>AttributeError\<close> inside the handler's \<open>try\<close>.
\<close>

definition request_data :: "exn + json \<Rightarrow> exn + dict" where
  "request_data request =
    (case request of
       Inl e \<Rightarrow> Inl e
     | Inr (JObj d) \<Rightarrow> Inr d
     | Inr v \<Rightarrow> Inl (Exn AttributeError
                (lit (quoted (type_name v) @ '' object has no attribute '' @ quoted ''get''))))"

text \<open>
  \<open>get_client\<close>: creates the one \<open>UserClient\<close> on first use and refuses to hand it out
  unless the session is authorized.
\<close>

definition get_client :: "backend \<Rightarrow> state \<Rightarrow> exn option \<times> state" where
  "get_client be s =
    (case is_authorized be (s\<lparr>have_user_client := True\<rparr>) of
       (Inl e, s1) \<Rightarrow> (Some e, s1)
     | (Inr ok, s1) \<Rightarrow>
         if \<not> ok
           then (Some (Exn RuntimeError (lit ''Not authorized. Run 'tg login' first.'')), s1)
         else (None, s1))"

text \<open>
  What every handler does once its fields are validated: obtain the client, call the
  action, and wrap the result or the exception.
\<close>

definition serve ::
  "backend \<Rightarrow> (state \<Rightarrow> (exn + dict) \<times> state) \<Rightarrow> state \<Rightarrow> response \<times> state" where
  "serve be action s =
    (case get_client be s of
       (Some e, s1) \<Rightarrow> (error_response e, s1)
     | (None, s1) \<Rightarrow>
         (case action s1 of
            (Inl e, s2) \<Rightarrow> (error_response e, s2)
          | (Inr result, s2) \<Rightarrow> (ok_response result, s2)))"

definition handle_health :: "backend \<Rightarrow> state \<Rightarrow> response \<times> state" where
  "handle_health be s =
    (case get_client be s of
       (Some e, s1) \<Rightarrow>
         (json_response
            [(''ok'', JBool False), (''status'', JStr (lit ''error'')), (''error'', JStr (str_exn e))]
            500, s1)
     | (None, s1) \<Rightarrow>
         (case get_me be s1 of
            (Inl e, s2) \<Rightarrow>
              (json_response
                 [(''ok'', JBool False), (''status'', JStr (lit ''error'')),
                  (''error'', JStr (str_exn e))] 500, s2)
          | (Inr profile, s2) \<Rightarrow>
              (json_response
                 [(''ok'', JBool True), (''status'', JStr (lit ''connected'')),
                  (''user'', JObj profile)] 200, s2)))"

definition handle_send_message :: "backend \<Rightarrow> exn + json \<Rightarrow> state \<Rightarrow> response \<times> state" where
  "handle_send_message be request s =
    (case request_data request of
       Inl e \<Rightarrow> (error_response e, s)
     | Inr data \<Rightarrow>
         if \<not> truthy (dict_get data ''entity'')
           then (required_response ''entity is required'', s)
         else serve be
                (send_message be (dict_get data ''entity'')
                   (dict_get_default data ''message'' (JStr []))
                   (dict_get data ''reply_to'')) s)"

definition handle_send_file :: "backend \<Rightarrow> exn + json \<Rightarrow> state \<Rightarrow> response \<times> state" where
  "handle_send_file be request s =
    (case request_data request of
       Inl e \<Rightarrow> (error_response e, s)
     | Inr data \<Rightarrow>
         if \<not> truthy (dict_get data ''entity'') \<or> \<not> truthy (dict_get data ''file_path'')
           then (required_response ''entity and file_path are required'', s)
         else (case as_path (dict_get data ''file_path'') of
                 Inl e \<Rightarrow> (error_response e, s)
               | Inr p \<Rightarrow>
                   if \<not> path_exists be p
                     then (json_response
                             [(''ok'', JBool False),
                              (''error'', JStr (lit ''File not found: '' @ p))]
                             400, s)
                   else serve be
                          (send_file be (dict_get data ''entity'') (dict_get data ''file_path'')
                             (dict_get_default data ''caption'' (JStr []))
                             (dict_get_default data ''voice'' (JBool False))) s))"

definition handle_get_messages :: "backend \<Rightarrow> exn + json \<Rightarrow> state \<Rightarrow> response \<times> state" where
  "handle_get_messages be request s =
    (case request_data request of
       Inl e \<Rightarrow> (error_response e, s)
     | Inr data \<Rightarrow>
         if \<not> truthy (dict_get data ''entity'')
           then (required_response ''entity is required'', s)
         else (case get_client be s of
                 (Some e, s1) \<Rightarrow> (error_response e, s1)
               | (None, s1) \<Rightarrow>
                   (case get_messages be (dict_get data ''entity'')
                           (dict_get_default data ''limit'' (JInt 10)) s1 of
                      (Inl e, s2) \<Rightarrow> (error_response e, s2)
                    | (Inr messages, s2) \<Rightarrow>
                        (json_response
                           [(''ok'', JBool True), (''messages'', JList (map JObj messages))]
                           200, s2))))"

definition handle_search_dialogs :: "backend \<Rightarrow> exn + json \<Rightarrow> state \<Rightarrow> response \<times> state" where
  "handle_search_dialogs be request s =
    (case request_data request of
       Inl e \<Rightarrow> (error_response e, s)
     | Inr data \<Rightarrow>
         (case get_client be s of
            (Some e, s1) \<Rightarrow> (error_response e, s1)
          | (None, s1) \<Rightarrow>
              (case search_dialogs be (dict_get_default data ''query'' (JStr []))
                      (dict_get_default data ''limit'' (JInt 10)) s1 of
                 (Inl e, s2) \<Rightarrow> (error_response e, s2)
               | (Inr dialogs, s2) \<Rightarrow>
                   (json_response
                      [(''ok'', JBool True), (''dialogs'', JList (map JObj dialogs))]
                      200, s2))))"

definition handle_download_media :: "backend \<Rightarrow> exn + json \<Rightarrow> state \<Rightarrow> response \<times> state" where
  "handle_download_media be request s =
    (case request_data request of
       Inl e \<Rightarrow> (error_response e, s)
     | Inr data \<Rightarrow>
         if \<not> truthy (dict_get data ''entity'') \<or> \<not> truthy (dict_get data ''message_id'')
            \<or> \<not> truthy (dict_get data ''save_path'')
           then (required_response ''entity, message_id, and save_path are required'', s)
         else serve be
                (download_media be (dict_get data ''entity'') (dict_get data ''message_id'')
                   (dict_get data ''save_path'')) s)"

definition handle_edit_message :: "backend \<Rightarrow> exn + json \<Rightarrow> state \<Rightarrow> response \<times> state" where
  "handle_edit_message be request s =
    (case request_data request of
       Inl e \<Rightarrow> (error_response e, s)
     | Inr data \<Rightarrow>
         if \<not> truthy (dict_get data ''entity'') \<or> \<not> truthy (dict_get data ''message_id'')
            \<or> \<not> truthy (dict_get data ''text'')
           then (required_response ''entity, message_id, and text are required'', s)
         else serve be
                (edit_message be (dict_get data ''entity'') (dict_get data ''message_id'')
                   (dict_get data ''text'')) s)"

definition handle_delete_messages :: "backend \<Rightarrow> exn + json \<Rightarrow> state \<Rightarrow> response \<times> state" where
  "handle_delete_messages be request s =
    (case request_data request of
       Inl e \<Rightarrow> (error_response e, s)
     | Inr data \<Rightarrow>
         if \<not> truthy (dict_get data ''entity'')
            \<or> \<not> truthy (dict_get_default data ''message_ids'' (JList []))
           then (required_response ''entity and message_ids are required'', s)
         else serve be
                (delete_messages be (dict_get data ''entity'')
                   (dict_get_default data ''message_ids'' (JList []))) s)"

text \<open>The routes of \<open>create_app\<close> that take a POST body, and their handlers.\<close>

datatype route =
    Send_message_route
  | Send_file_route
  | Get_messages_route
  | Search_dialogs_route
  | Download_media_route
  | Edit_message_route
  | Delete_messages_route

fun handle :: "route \<Rightarrow> backend \<Rightarrow> exn + json \<Rightarrow> state \<Rightarrow> response \<times> state" where
  "handle Send_message_route = handle_send_message"
| "handle Send_file_route = handle_send_file"
| "handle Get_messages_route = handle_get_messages"
| "handle Search_dialogs_route = handle_search_dialogs"
| "handle Download_media_route = handle_download_media"
| "handle Edit_message_route = handle_edit_message"
| "handle Delete_messages_route = handle_delete_messages"

text \<open>
  The fields each handler tests before it does anything else, and the text of the
  rejection it sends when one of them is absent or falsy.
\<close>

fun validated_fields :: "route \<Rightarrow> string list" where
  "validated_fields Send_message_route = [''entity'']"
| "validated_fields Send_file_route = [''entity'', ''file_path'']"
| "validated_fields Get_messages_route = [''entity'']"
| "validated_fields Search_dialogs_route = []"
| "validated_fields Download_media_route = [''entity'', ''message_id'', ''save_path'']"
| "validated_fields Edit_message_route = [''entity'', ''message_id'', ''text'']"
| "validated_fields Delete_messages_route = [''entity'', ''message_ids'']"

fun rejection_text :: "route \<Rightarrow> string" where
  "rejection_text Send_message_route = ''entity is required''"
| "rejection_text Send_file_route = ''entity and file_path are required''"
| "rejection_text Get_messages_route = ''entity is required''"
| "rejection_text Search_dialogs_route = []"
| "rejection_text Download_media_route = ''entity, message_id, and save_path are required''"
| "rejection_text Edit_message_route = ''entity, message_id, and text are required''"
| "rejection_text Delete_messages_route = ''entity and message_ids are required''"

section \<open>The daemon's lifecycle (daemon.py, cli.py)\<close>

subsection \<open>Reading and writing the pid file\<close>

text \<open>
  The text of the pid file is a \<open>string\<close>: its characters are the code points below
  256. \<open>str_int\<close> is \<open>str(n)\<close> for an integer. \<open>py_int\<close> is \<open>int(s.strip())\<close>:
  surrounding whitespace (the twelve code points below 256 that \<open>str.isspace\<close> holds
  for), an optional sign, decimal digits, single underscores between digits, and no more
  than 4300 digits (the interpreter's default limit on the digits of an integer
  literal). \<open>None\<close> is the \<open>ValueError\<close>.
\<close>

definition digit_char :: "nat \<Rightarrow> char" where
  "digit_char n = ''0123456789'' ! n"

fun str_nat :: "nat \<Rightarrow> string" where
  "str_nat n = (if n < 10 then [digit_char n] else str_nat (n div 10) @ [digit_char (n mod 10)])"

declare str_nat.simps [simp del]

definition str_int :: "int \<Rightarrow> string" where
  "str_int i = (if i < 0 then CHR ''-'' # str_nat (nat (- i)) else str_nat (nat i))"

definition is_space :: "char \<Rightarrow> bool" where
  "is_space c = (c \<in> set [CHR 0x09, CHR 0x0A, CHR 0x0B, CHR 0x0C, CHR 0x0D,
                           CHR 0x1C, CHR 0x1D, CHR 0x1E, CHR 0x1F, CHR 0x20,
                           CHR 0x85, CHR 0xA0])"

definition strip :: "string \<Rightarrow> string" where
  "strip s = rev (dropWhile is_space (rev (dropWhile is_space s)))"

definition digit_val :: "char \<Rightarrow> nat option" where
  "digit_val c =
    (if 48 \<le> (of_char c :: nat) \<and> (of_char c :: nat) \<le> 57
     then Some (of_char c - 48) else None)"

fun digits_value :: "string \<Rightarrow> nat \<Rightarrow> nat option" where
  "digits_value [] acc = Some acc"
| "digits_value [c] acc =
    (case digit_val c of None \<Rightarrow> None | Some v \<Rightarrow> Some (acc * 10 + v))"
| "digits_value (c # d # ds) acc =
    (if c = CHR ''_''
     then (case digit_val d of None \<Rightarrow> None | Some v \<Rightarrow> digits_value ds (acc * 10 + v))
     else (case digit_val c of None \<Rightarrow> None | Some v \<Rightarrow> digits_value (d # ds) (acc * 10 + v)))"

definition max_str_digits :: nat where
  "max_str_digits = 4300"

definition unsigned :: "string \<Rightarrow> nat option" where
  "unsigned s =
    (if max_str_digits < length (filter (\<lambda>c. c \<noteq> CHR ''_'') s) then None
     else (case s of
             [] \<Rightarrow> None
           | c # cs \<Rightarrow>
               (case digit_val c of None \<Rightarrow> None | Some v \<Rightarrow> digits_value cs v)))"

definition py_int :: "string \<Rightarrow> int option" where
  "py_int s =
    (case strip s of
       [] \<Rightarrow> None
     | c # cs \<Rightarrow>
         if c = CHR ''-'' then map_option (\<lambda>n. - int n) (unsigned cs)
         else if c = CHR ''+'' then map_option int (unsigned cs)
         else map_option int (unsigned (c # cs)))"

subsection \<open>The host\<close>

text \<open>
  What the lifecycle commands see of the machine: the text of \<open>daemon.pid\<close> (\<open>None\<close>
  when the file does not exist), the process identifiers for which \<open>os.kill\<close> returns
  (for every other identifier it raises), the identifier of the running process, the
  processes sent \<open>SIGTERM\<close> so far, the exception with which binding the listener fails
  (if it does), how many liveness probes a process survives once it has been sent
  \<open>SIGTERM\<close>, and the answers of successive \<open>GET /health\<close> probes. Reading,
  writing and removing the pid file succeed: a configuration directory that cannot be
  read or written is not modelled.
\<close>

record host =
  pid_file :: "string option"
  alive :: "int list"
  own_pid :: int
  terminated :: "int list"
  bind_error :: "exn option"
  exit_delay :: nat
  health_probes :: "bool list"

text \<open>
  \<open>os.kill(pid, sig)\<close>: it returns for the identifiers of \<open>alive\<close>. For any other
  identifier it raises: \<open>OverflowError\<close> when the identifier does not fit the
  platform's process identifier type, a C \<open>int\<close> (it is below \<open>-2^31\<close> or not below
  \<open>2^31\<close>), and \<open>OSError\<close> otherwise. \<open>OverflowError\<close> is neither an \<open>OSError\<close> nor a
  \<open>ValueError\<close>.
\<close>

datatype kill_result =
    Signalled
  | No_process
  | Out_of_range

definition os_kill :: "host \<Rightarrow> int \<Rightarrow> kill_result" where
  "os_kill h pid =
    (if pid \<in> set (alive h) then Signalled
     else if - (2 ^ 31) \<le> pid \<and> pid < 2 ^ 31 then No_process
     else Out_of_range)"

text \<open>Why the \<open>except (OSError, ValueError)\<close> branch of \<open>stop\<close> was taken.\<close>

datatype stop_error =
    No_such_process int
  | Invalid_literal string

text \<open>
  Lines the commands log or print:
  \<^item> \<open>User_not_configured\<close>: "User not configured. Run 'tg login' first."
  \<^item> \<open>Daemon_already_running p\<close>: "Daemon already running (PID p)"
  \<^item> \<open>Connected_as f u\<close>: "Connected as f (@u)"
  \<^item> \<open>Failed_to_connect e\<close>: "Failed to connect: e"
  \<^item> \<open>Daemon_listening\<close>: "Daemon listening on host:port"
  \<^item> \<open>Daemon_not_running\<close>: "Daemon not running"
  \<^item> \<open>Sent_SIGTERM p\<close>: "Sent SIGTERM to PID p"
  \<^item> \<open>Failed_to_stop e\<close>: "Failed to stop daemon: e" (daemon.py), "Failed to stop: e" (cli.py)
  \<^item> \<open>Daemon_stopped\<close>: "Daemon stopped"
  \<^item> \<open>May_still_be_shutting_down\<close>: "Daemon may still be shutting down"
  \<^item> \<open>Daemon_is_already_running\<close>: "Daemon is already running"
  \<^item> \<open>Starting_daemon\<close>: "Starting daemon..."
  \<^item> \<open>Daemon_started\<close>: "Daemon started. Connected as ..."
  \<^item> \<open>Daemon_failed_to_start\<close>: "Daemon failed to start. Check logs: tg daemon logs"
\<close>

datatype line =
    User_not_configured
  | Daemon_already_running int
  | Connected_as json json
  | Failed_to_connect exn
  | Daemon_listening
  | Daemon_not_running
  | Sent_SIGTERM int
  | Failed_to_stop stop_error
  | Daemon_stopped
  | May_still_be_shutting_down
  | Daemon_is_already_running
  | Starting_daemon
  | Daemon_started
  | Daemon_failed_to_start

text \<open>
  What happens during a start, in order: a line logged, the pid file written or
  removed, the \<open>UserClient\<close> constructed, a request made of the \<open>TelegramClient\<close>.
\<close>

datatype event =
    Logged line
  | Pid_written string
  | Pid_removed
  | User_client_constructed
  | Backend call

text \<open>
  How a start ends: \<open>sys.exit(n)\<close>, an exception that leaves \<open>run_daemon\<close> (the one
  binding the listener raised, or the \<open>OverflowError\<close> of \<open>os.kill\<close> for the
  identifier given), or the daemon listening and serving until it is signalled.
\<close>

datatype outcome =
    Exited nat
  | Raised exn
  | Raised_overflow int
  | Serving

record run =
  outcome :: outcome
  host_after :: host
  state_after :: state
  events :: "event list"

definition initial_state :: state where
  "initial_state =
     \<lparr>have_user_client = False, have_tg_client = False, connected = False, trace = []\<rparr>"

text \<open>
  The check for an existing daemon. \<open>Running p\<close>: the file exists, its text is the
  integer \<open>p\<close> and \<open>os.kill(p, 0)\<close> returns. \<open>Not_running\<close>: there is no file, or
  reading the integer raises \<open>ValueError\<close>, or \<open>os.kill\<close> raises \<open>OSError\<close>; these
  the code catches. \<open>Probe_overflow p\<close>: \<open>os.kill(p, 0)\<close> raises \<open>OverflowError\<close>, which
  the code does not catch.
\<close>

datatype probe =
    Running int
  | Not_running
  | Probe_overflow int

definition existing_daemon :: "host \<Rightarrow> probe" where
  "existing_daemon h =
    (case pid_file h of
       None \<Rightarrow> Not_running
     | Some recorded \<Rightarrow>
         (case py_int recorded of
            None \<Rightarrow> Not_running
          | Some old_pid \<Rightarrow>
              (case os_kill h old_pid of
                 Signalled \<Rightarrow> Running old_pid
               | No_process \<Rightarrow> Not_running
               | Out_of_range \<Rightarrow> Probe_overflow old_pid)))"

definition run_daemon :: "backend \<Rightarrow> host \<Rightarrow> run" where
  "run_daemon be h =
    (if \<not> is_configured be
       then \<lparr>outcome = Exited 1, host_after = h, state_after = initial_state,
             events = [Logged User_not_configured]\<rparr>
     else (case existing_daemon h of
             Running old_pid \<Rightarrow>
               \<lparr>outcome = Exited 1, host_after = h, state_after = initial_state,
                events = [Logged (Daemon_already_running old_pid)]\<rparr>
           | Probe_overflow old_pid \<Rightarrow>
               \<lparr>outcome = Raised_overflow old_pid, host_after = h,
                state_after = initial_state, events = []\<rparr>
           | Not_running \<Rightarrow>
               (case get_me be (initial_state\<lparr>have_user_client := True\<rparr>) of
                  (Inl e, s1) \<Rightarrow>
                    \<lparr>outcome = Exited 1,
                     host_after = h\<lparr>pid_file := None\<rparr>,
                     state_after = s1,
                     events = [Pid_written (str_int (own_pid h)), User_client_constructed]
                       @ map Backend (trace s1)
                       @ [Logged (Failed_to_connect e), Pid_removed]\<rparr>
                | (Inr profile, s1) \<Rightarrow>
                    (case bind_error h of
                       Some e \<Rightarrow>
                         \<lparr>outcome = Raised e,
                          host_after = h\<lparr>pid_file := Some (str_int (own_pid h))\<rparr>,
                          state_after = s1,
                          events = [Pid_written (str_int (own_pid h)), User_client_constructed]
                            @ map Backend (trace s1)
                            @ [Logged (Connected_as (dict_get profile ''first_name'')
                                        (dict_get profile ''username''))]\<rparr>
                     | None \<Rightarrow>
                         \<lparr>outcome = Serving,
                          host_after = h\<lparr>pid_file := Some (str_int (own_pid h))\<rparr>,
                          state_after = s1,
                          events = [Pid_written (str_int (own_pid h)), User_client_constructed]
                            @ map Backend (trace s1)
                            @ [Logged (Connected_as (dict_get profile ''first_name'')
                                        (dict_get profile ''username'')),
                               Logged Daemon_listening]\<rparr>))))"

subsection \<open>stop\<close>

text \<open>
  How a \<open>stop\<close> ends: it returns, with the host afterwards and the lines printed, or
  the \<open>OverflowError\<close> of \<open>os.kill\<close> for the identifier given leaves it, with nothing
  printed and the host as it was.
\<close>

datatype stop_result =
    Stop_returned host "line list"
  | Stop_overflow int

text \<open>\<open>daemon_stop\<close> of daemon.py.\<close>

definition daemon_stop :: "host \<Rightarrow> stop_result" where
  "daemon_stop h =
    (case pid_file h of
       None \<Rightarrow> Stop_returned h [Daemon_not_running]
     | Some recorded \<Rightarrow>
         (case py_int recorded of
            None \<Rightarrow>
              Stop_returned (h\<lparr>pid_file := None\<rparr>) [Failed_to_stop (Invalid_literal recorded)]
          | Some pid \<Rightarrow>
              (case os_kill h pid of
                 Signalled \<Rightarrow>
                   Stop_returned (h\<lparr>terminated := terminated h @ [pid]\<rparr>) [Sent_SIGTERM pid]
               | No_process \<Rightarrow>
                   Stop_returned (h\<lparr>pid_file := None\<rparr>) [Failed_to_stop (No_such_process pid)]
               | Out_of_range \<Rightarrow> Stop_overflow pid)))"

text \<open>
  The wait of cli.py's \<open>stop\<close>: up to \<open>n\<close> rounds of sleeping and probing; true when a
  probe finds the process gone.
\<close>

fun wait_for_exit :: "nat \<Rightarrow> nat \<Rightarrow> bool" where
  "wait_for_exit 0 delay = False"
| "wait_for_exit (Suc n) delay = (if delay = 0 then True else wait_for_exit n (delay - 1))"

definition cli_daemon_stop :: "host \<Rightarrow> stop_result" where
  "cli_daemon_stop h =
    (case pid_file h of
       None \<Rightarrow> Stop_returned h [Daemon_not_running]
     | Some recorded \<Rightarrow>
         (case py_int recorded of
            None \<Rightarrow>
              Stop_returned (h\<lparr>pid_file := None\<rparr>) [Failed_to_stop (Invalid_literal recorded)]
          | Some pid \<Rightarrow>
              (case os_kill h pid of
                 Signalled \<Rightarrow>
                   if wait_for_exit 10 (exit_delay h)
                     then Stop_returned
                            (h\<lparr>terminated := terminated h @ [pid],
                               alive := removeAll pid (alive h)\<rparr>)
                            [Sent_SIGTERM pid, Daemon_stopped]
                   else Stop_returned (h\<lparr>terminated := terminated h @ [pid]\<rparr>)
                          [Sent_SIGTERM pid, May_still_be_shutting_down]
               | No_process \<Rightarrow>
                   Stop_returned (h\<lparr>pid_file := None\<rparr>) [Failed_to_stop (No_such_process pid)]
               | Out_of_range \<Rightarrow> Stop_overflow pid)))"

subsection \<open>start from the command line\<close>

text \<open>
  \<open>daemon_start\<close> of cli.py asks \<open>GET /health\<close> whether a daemon answers; it does not
  read the pid file. Unless one answers it starts \<open>run_daemon\<close> in a process of its
  own (in place of itself with \<open>--foreground\<close>) and polls the health endpoint up to 20
  times. A probe the host gives no answer for counts as failed.
\<close>

datatype cli_outcome =
    Returned
  | Exit nat
  | Replaced

record cli_start =
  cli_outcome :: cli_outcome
  cli_lines :: "line list"
  child :: "run option"

fun await_daemon :: "nat \<Rightarrow> bool list \<Rightarrow> bool" where
  "await_daemon 0 probes = False"
| "await_daemon (Suc n) [] = False"
| "await_daemon (Suc n) (p # probes) = (p \<or> await_daemon n probes)"

definition is_daemon_running :: "bool list \<Rightarrow> bool" where
  "is_daemon_running probes = (case probes of [] \<Rightarrow> False | p # rest \<Rightarrow> p)"

definition cli_daemon_start :: "backend \<Rightarrow> host \<Rightarrow> bool \<Rightarrow> cli_start" where
  "cli_daemon_start be h foreground =
    (if is_daemon_running (health_probes h)
       then \<lparr>cli_outcome = Returned, cli_lines = [Daemon_is_already_running], child = None\<rparr>
     else if \<not> is_configured be
       then \<lparr>cli_outcome = Exit 1, cli_lines = [User_not_configured], child = None\<rparr>
     else if foreground
       then \<lparr>cli_outcome = Replaced, cli_lines = [], child = Some (run_daemon be h)\<rparr>
     else if await_daemon 20 (tl (health_probes h))
       then \<lparr>cli_outcome = Returned, cli_lines = [Starting_daemon, Daemon_started],
             child = Some (run_daemon be h)\<rparr>
     else \<lparr>cli_outcome = Exit 1, cli_lines = [Starting_daemon, Daemon_failed_to_start],
           child = Some (run_daemon be h)\<rparr>)"

section \<open>Reference definitions\<close>

text \<open>
  The real messages of a stream, in order: what the specification asks \<open>get_messages\<close>
  to return the dictionaries of.
\<close>

fun real_messages :: "tl_message list \<Rightarrow> tl_msg list" where
  "real_messages [] = []"
| "real_messages (Message m # rest) = m # real_messages rest"
| "real_messages (MessageService i # rest) = real_messages rest"
| "real_messages (MessageEmpty i # rest) = real_messages rest"


section \<open>A stub backend and hosts for the examples\<close>

text \<open>
  \<open>str.lower\<close> on text whose code points are all below 256: the letters A to Z and
  the capital letters from U+00C0 to U+00DE, without the multiplication sign U+00D7,
  move up by 32; every other code point below 256 stays.
\<close>

definition latin_lower :: "unicode \<Rightarrow> unicode" where
  "latin_lower s =
     map (\<lambda>c. if (65 \<le> c \<and> c \<le> 90) \<or> (192 \<le> c \<and> c \<le> 222 \<and> c \<noteq> 215)
              then c + 32 else c) s"

text \<open>
  A backend on which every request succeeds and no path exists, for an account that is
  configured and authorized; the examples change one answer at a time.
\<close>

definition stub_backend :: backend where
  "stub_backend =
     \<lparr>construct_error = None,
      is_configured = True,
      connect_error = None,
      authorized = Inr True,
      me = Inr (Some \<lparr>user_id = 1, first_name = Some (lit ''Ann''), last_name = None,
                       username = Some (lit ''ann''), phone = None\<rparr>),
      send_message_result = (\<lambda>entity message reply_to. Inr \<lparr>sent_id = 7, sent_chat_id = 9\<rparr>),
      send_file_result = (\<lambda>entity path caption voice. Inr \<lparr>sent_id = 8, sent_chat_id = 9\<rparr>),
      edit_error = (\<lambda>entity mid new_text. None),
      delete_result = (\<lambda>entity ids. Inr 0),
      messages_result = (\<lambda>entity limit. Inr []),
      dialogs_result = (\<lambda>limit. Inr []),
      fetch_result = (\<lambda>entity mid. Inr None),
      download_result = (\<lambda>entity mid path. Inr None),
      path_exists = (\<lambda>p. False),
      resolve_path = (\<lambda>p. p),
      format_value = (\<lambda>v. []),
      str_lower = latin_lower\<rparr>"

text \<open>The state of a client that has been constructed and connected.\<close>

definition connected_state :: state where
  "connected_state =
     \<lparr>have_user_client = False, have_tg_client = True, connected = True,
      trace = [Construct, Connect]\<rparr>"

text \<open>
  Process 4242 on a host with no pid file, on hosts whose pid file names 777, and on a
  host whose pid file holds 2147483648, the first integer beyond a C \<open>int\<close>.
\<close>

definition fresh_host :: host where
  "fresh_host =
     \<lparr>pid_file = None, alive = [], own_pid = 4242, terminated = [], bind_error = None,
      exit_delay = 0, health_probes = []\<rparr>"

definition stale_host :: host where
  "stale_host = fresh_host\<lparr>pid_file := Some ''777''\<rparr>"

definition overflow_host :: host where
  "overflow_host = fresh_host\<lparr>pid_file := Some ''2147483648''\<rparr>"

definition running_host :: host where
  "running_host = fresh_host\<lparr>pid_file := Some ''777'', alive := [777], health_probes := [True]\<rparr>"

text \<open>A stream of three real messages and two service events.\<close>

definition plain_message :: "int \<Rightarrow> string \<Rightarrow> tl_message" where
  "plain_message i t =
     Message \<lparr>msg_id = i, msg_date = None, msg_text = Some (lit t), msg_sender_id = Some 5,
              msg_media = None\<rparr>"

definition mixed_stream :: "tl_message list" where
  "mixed_stream =
     [plain_message 10 ''a'', MessageService 9, plain_message 8 ''b'', MessageEmpty 7,
      plain_message 6 ''c'']"



section \<open>Properties of UserClient\<close>

lemma lit_empty [simp]: "lit s = [] \<longleftrightarrow> s = []"
  by (simp add: lit_def)

lemma lit_append: "lit (a @ b) = lit a @ lit b"
  by (simp add: lit_def)

lemma connect_stub_backend:
  "connect_error be = None \<Longrightarrow> construct_error be = None \<Longrightarrow> is_configured be \<Longrightarrow>
   connect be initial_state = (None, connected_state)"
  by (simp add: connect_def client_def initial_state_def connected_state_def issue_def)

lemma connect_trace:
  "connect be s = (r, s1) \<Longrightarrow>
   \<exists>cs. trace s1 = trace s @ cs \<and> set cs \<subseteq> {Construct, Connect}"
  by (auto simp add: connect_def client_def issue_def split: if_splits option.splits)

lemma connect_when_connected:
  "have_tg_client s \<Longrightarrow> connected s \<Longrightarrow> connect be s = (None, s)"
  by (simp add: connect_def client_def)

text \<open>
  C10. Whenever the connection is in place and the backend reports no current user,
  \<open>get_me\<close> returns the empty dictionary; it does not raise. The only request added
  to the trace is \<open>get_me\<close> itself.
\<close>

theorem get_me_without_user_is_empty:
  assumes "connect be s = (None, s1)" and "me be = Inr None"
  shows "get_me be s = (Inr [], issue Get_me s1)"
  using assms by (simp add: get_me_def)

theorem get_me_without_user_is_empty_witness:
  "get_me (stub_backend\<lparr>me := Inr None, authorized := Inr False\<rparr>) initial_state =
     (Inr [], \<lparr>have_user_client = False, have_tg_client = True, connected = True,
               trace = [Construct, Connect, Get_me]\<rparr>)"
proof -
  have c: "connect (stub_backend\<lparr>me := Inr None, authorized := Inr False\<rparr>) initial_state
             = (None, connected_state)"
    by (rule connect_stub_backend) (simp_all add: stub_backend_def)
  have m: "me (stub_backend\<lparr>me := Inr None, authorized := Inr False\<rparr>) = Inr None"
    by simp
  show ?thesis
    using get_me_without_user_is_empty [OF c m] by (simp add: issue_def connected_state_def)
qed

text \<open>
  C8. Whenever the connection is in place and the backend's delete request returns,
  \<open>delete_messages\<close> reports as deleted the number of identifiers it was given,
  whatever number \<open>removed\<close> the backend says it removed.
\<close>

theorem delete_messages_reports_requested_count:
  assumes "connect be s = (None, s1)"
    and "delete_result be entity (JList ids) = Inr removed"
  shows "delete_messages be entity (JList ids) s =
           (Inr [(''deleted'', JInt (int (length ids)))],
            issue (Delete_messages entity (JList ids)) s1)"
  using assms by (simp add: delete_messages_def py_len_def)

theorem delete_messages_reports_requested_count_witness:
  "delete_messages (stub_backend\<lparr>delete_result := (\<lambda>entity ids. Inr 2)\<rparr>) (JStr (lit ''@ann''))
       (JList [JInt 1, JInt 2, JInt 3]) initial_state =
     (Inr [(''deleted'', JInt 3)],
      \<lparr>have_user_client = False, have_tg_client = True, connected = True,
       trace = [Construct, Connect,
                Delete_messages (JStr (lit ''@ann'')) (JList [JInt 1, JInt 2, JInt 3])]\<rparr>)"
proof -
  have c: "connect (stub_backend\<lparr>delete_result := (\<lambda>entity ids. Inr 2)\<rparr>) initial_state
             = (None, connected_state)"
    by (rule connect_stub_backend) (simp_all add: stub_backend_def)
  have d: "delete_result (stub_backend\<lparr>delete_result := (\<lambda>entity ids. Inr 2)\<rparr>)
             (JStr (lit ''@ann'')) (JList [JInt 1, JInt 2, JInt 3]) = Inr 2"
    by simp
  show ?thesis
    using delete_messages_reports_requested_count [OF c d]
    by (simp add: issue_def connected_state_def)
qed

lemma collect_messages_acc:
  "collect_messages stream acc = acc @ map msg_data (real_messages stream)"
  by (induction stream acc rule: collect_messages.induct) simp_all

lemma length_real_messages:
  "length (real_messages stream) = length (filter (\<lambda>m. \<not> is_service m) stream)"
  by (induction stream rule: real_messages.induct) simp_all

text \<open>
  C7. Whenever the connection is in place and the backend yields a stream,
  \<open>get_messages\<close> returns the dictionaries of exactly the real messages of the stream,
  in order: one entry per message that is neither a service message nor an empty
  placeholder, and none for the others.
\<close>

theorem get_messages_returns_real_messages:
  assumes "connect be s = (None, s1)"
    and "messages_result be entity limit = Inr stream"
  shows "get_messages be entity limit s =
           (Inr (map msg_data (real_messages stream)), issue (Iter_messages entity limit) s1)
       \<and> length (map msg_data (real_messages stream))
           = length (filter (\<lambda>m. \<not> is_service m) stream)"
  using assms by (simp add: get_messages_def collect_messages_acc length_real_messages)

theorem get_messages_returns_real_messages_witness:
  "get_messages (stub_backend\<lparr>messages_result := (\<lambda>entity limit. Inr mixed_stream)\<rparr>)
       (JStr (lit ''@ann'')) (JInt 10) initial_state =
     (Inr [[(''id'', JInt 10), (''date'', JNull), (''text'', JStr (lit ''a'')), (''from_id'', JInt 5),
            (''has_media'', JBool False)],
           [(''id'', JInt 8), (''date'', JNull), (''text'', JStr (lit ''b'')), (''from_id'', JInt 5),
            (''has_media'', JBool False)],
           [(''id'', JInt 6), (''date'', JNull), (''text'', JStr (lit ''c'')), (''from_id'', JInt 5),
            (''has_media'', JBool False)]],
      \<lparr>have_user_client = False, have_tg_client = True, connected = True,
       trace = [Construct, Connect, Iter_messages (JStr (lit ''@ann'')) (JInt 10)]\<rparr>)
   \<and> length (filter (\<lambda>m. \<not> is_service m) mixed_stream) = 3
   \<and> length (filter is_service mixed_stream) = 2"
proof -
  have c: "connect (stub_backend\<lparr>messages_result := (\<lambda>entity limit. Inr mixed_stream)\<rparr>)
             initial_state = (None, connected_state)"
    by (rule connect_stub_backend) (simp_all add: stub_backend_def)
  have m: "messages_result (stub_backend\<lparr>messages_result := (\<lambda>entity limit. Inr mixed_stream)\<rparr>)
             (JStr (lit ''@ann'')) (JInt 10) = Inr mixed_stream"
    by simp
  show ?thesis
    using get_messages_returns_real_messages [OF c m]
    by (simp add: issue_def connected_state_def mixed_stream_def plain_message_def msg_data_def
          opt_str_def opt_int_def)
qed




lemma contains_iff:
  "contains needle hay \<longleftrightarrow> (\<exists>before after. hay = before @ needle @ after)"
proof (induction hay)
  case Nil
  then show ?case by auto
next
  case (Cons c cs)
  show ?case
  proof
    assume "contains needle (c # cs)"
    then consider "prefix needle (c # cs)" | "contains needle cs" by auto
    then show "\<exists>before after. c # cs = before @ needle @ after"
    proof cases
      case 1
      then obtain after where "c # cs = needle @ after" by (auto simp: prefix_def)
      then have "c # cs = [] @ needle @ after" by simp
      then show ?thesis by blast
    next
      case 2
      with Cons.IH obtain before after where "cs = before @ needle @ after" by blast
      then have "c # cs = (c # before) @ needle @ after" by simp
      then show ?thesis by blast
    qed
  next
    assume "\<exists>before after. c # cs = before @ needle @ after"
    then obtain before after where e: "c # cs = before @ needle @ after" by blast
    show "contains needle (c # cs)"
    proof (cases before)
      case Nil
      with e have "prefix needle (c # cs)" by (simp add: prefix_def)
      then show ?thesis by simp
    next
      case (Cons b bs)
      with e have "cs = bs @ needle @ after" by simp
      then have "\<exists>before after. cs = before @ needle @ after" by blast
      with \<open>contains needle cs = (\<exists>before after. cs = before @ needle @ after)\<close>
      have "contains needle cs" by simp
      then show ?thesis by simp
    qed
  qed
qed



section \<open>Properties of the control server\<close>

lemma get_client_trace:
  "get_client be s = (r, s1) \<Longrightarrow>
   \<exists>cs. trace s1 = trace s @ cs \<and> set cs \<subseteq> {Construct, Connect, Is_user_authorized}"
proof -
  assume a: "get_client be s = (r, s1)"
  obtain r0 s0 where c: "connect be (s\<lparr>have_user_client := True\<rparr>) = (r0, s0)"
    by (cases "connect be (s\<lparr>have_user_client := True\<rparr>)") auto
  from connect_trace [OF c] obtain cs where
    cs: "trace s0 = trace s @ cs" "set cs \<subseteq> {Construct, Connect}" by auto
  from a c have "s1 = s0 \<or> s1 = issue Is_user_authorized s0"
    by (auto simp add: get_client_def is_authorized_def split: option.splits sum.splits if_splits)
  then show ?thesis
  proof
    assume "s1 = s0"
    with cs show ?thesis by auto
  next
    assume "s1 = issue Is_user_authorized s0"
    with cs have "trace s1 = trace s @ (cs @ [Is_user_authorized])"
      "set (cs @ [Is_user_authorized]) \<subseteq> {Construct, Connect, Is_user_authorized}"
      by (auto simp add: issue_def)
    then show ?thesis by blast
  qed
qed

lemma edit_message_trace:
  "edit_message be e m t s = (r, s1) \<Longrightarrow>
   \<exists>cs. trace s1 = trace s @ cs \<and> set cs \<subseteq> {Construct, Connect, Edit_message e m t}"
proof -
  assume a: "edit_message be e m t s = (r, s1)"
  obtain r0 s0 where c: "connect be s = (r0, s0)" by (cases "connect be s") auto
  from connect_trace [OF c] obtain cs where
    cs: "trace s0 = trace s @ cs" "set cs \<subseteq> {Construct, Connect}" by auto
  from a c have "s1 = s0 \<or> s1 = issue (Edit_message e m t) s0"
    by (auto simp add: edit_message_def split: option.splits)
  then show ?thesis
  proof
    assume "s1 = s0"
    with cs show ?thesis by auto
  next
    assume "s1 = issue (Edit_message e m t) s0"
    with cs have "trace s1 = trace s @ (cs @ [Edit_message e m t])"
      "set (cs @ [Edit_message e m t]) \<subseteq> {Construct, Connect, Edit_message e m t}"
      by (auto simp add: issue_def)
    then show ?thesis by blast
  qed
qed

lemma serve_trace:
  assumes m: "\<forall>s0 r s1. action s0 = (r, s1) \<longrightarrow>
                (\<exists>cs. trace s1 = trace s0 @ cs \<and> set cs \<subseteq> A)"
    and a: "serve be action s = (resp, s2)"
  shows "\<exists>cs. trace s2 = trace s @ cs \<and> set cs \<subseteq> {Construct, Connect, Is_user_authorized} \<union> A"
proof -
  obtain r1 s1 where g: "get_client be s = (r1, s1)" by (cases "get_client be s") auto
  from get_client_trace [OF g] obtain cs where
    cs: "trace s1 = trace s @ cs" "set cs \<subseteq> {Construct, Connect, Is_user_authorized}" by auto
  show ?thesis
  proof (cases r1)
    case (Some e)
    with a g have "s2 = s1" by (simp add: serve_def)
    with cs show ?thesis by auto
  next
    case None
    obtain r3 s3 where ms: "action s1 = (r3, s3)" by (cases "action s1") auto
    from m ms obtain ds where ds: "trace s3 = trace s1 @ ds" "set ds \<subseteq> A" by blast
    from a g None ms have "s2 = s3" by (auto simp add: serve_def split: sum.splits)
    with cs ds have "trace s2 = trace s @ (cs @ ds)"
      "set (cs @ ds) \<subseteq> {Construct, Connect, Is_user_authorized} \<union> A" by auto
    then show ?thesis by blast
  qed
qed

text \<open>
  C9. An \<open>edit_message\<close> request whose \<open>text\<close> is absent or the empty string, or whose
  \<open>message_id\<close> is absent or 0, is answered with status 400 and the error
  "entity, message_id, and text are required", and the state is left as it was: no
  request reaches the backend. Hence every edit the handler issues carries a truthy
  identifier and a truthy (non-empty) text.
\<close>

theorem edit_message_rejects_empty:
  "(map_of data ''text'' = None \<or> map_of data ''text'' = Some (JStr [])
      \<or> map_of data ''message_id'' = None \<or> map_of data ''message_id'' = Some (JInt 0)
    \<longrightarrow> handle_edit_message be (Inr (JObj data)) s =
          (required_response ''entity, message_id, and text are required'', s))
   \<and> (Edit_message e m t \<in> set (trace (snd (handle_edit_message be request s)))
      \<longrightarrow> Edit_message e m t \<in> set (trace s) \<or> (truthy m \<and> truthy t))"
proof
  show "map_of data ''text'' = None \<or> map_of data ''text'' = Some (JStr [])
      \<or> map_of data ''message_id'' = None \<or> map_of data ''message_id'' = Some (JInt 0)
    \<longrightarrow> handle_edit_message be (Inr (JObj data)) s =
          (required_response ''entity, message_id, and text are required'', s)"
    by (auto simp add: handle_edit_message_def request_data_def dict_get_def)
next
  show "Edit_message e m t \<in> set (trace (snd (handle_edit_message be request s)))
      \<longrightarrow> Edit_message e m t \<in> set (trace s) \<or> (truthy m \<and> truthy t)"
  proof
    assume in_trace: "Edit_message e m t \<in> set (trace (snd (handle_edit_message be request s)))"
    show "Edit_message e m t \<in> set (trace s) \<or> (truthy m \<and> truthy t)"
    proof (cases "request_data request")
      case (Inl x)
      with in_trace show ?thesis by (simp add: handle_edit_message_def)
    next
      case (Inr d)
      show ?thesis
      proof (cases "truthy (dict_get d ''entity'') \<and> truthy (dict_get d ''message_id'')
                    \<and> truthy (dict_get d ''text'')")
        case False
        with Inr in_trace show ?thesis by (auto simp add: handle_edit_message_def)
      next
        case True
        let ?action = "edit_message be (dict_get d ''entity'') (dict_get d ''message_id'')
                         (dict_get d ''text'')"
        from Inr True have h: "handle_edit_message be request s = serve be ?action s"
          by (simp add: handle_edit_message_def)
        obtain resp s2 where sv: "serve be ?action s = (resp, s2)"
          by (cases "serve be ?action s") auto
        have mt: "\<forall>s0 r s1. ?action s0 = (r, s1) \<longrightarrow>
                (\<exists>cs. trace s1 = trace s0 @ cs \<and> set cs \<subseteq> {Construct, Connect,
                 Edit_message (dict_get d ''entity'') (dict_get d ''message_id'') (dict_get d ''text'')})"
          using edit_message_trace by blast
        from serve_trace [OF mt sv]
        obtain cs where cs: "trace s2 = trace s @ cs"
          "set cs \<subseteq> {Construct, Connect, Is_user_authorized}
             \<union> {Construct, Connect,
                 Edit_message (dict_get d ''entity'') (dict_get d ''message_id'') (dict_get d ''text'')}"
          by blast
        from in_trace h sv cs have
          "Edit_message e m t \<in> set (trace s) \<or>
           Edit_message e m t = Edit_message (dict_get d ''entity'') (dict_get d ''message_id'')
             (dict_get d ''text'')"
          by auto
        with True show ?thesis by auto
      qed
    qed
  qed
qed

theorem edit_message_rejects_empty_witness:
  "handle_edit_message stub_backend
       (Inr (JObj [(''entity'', JStr (lit ''@ann'')), (''message_id'', JInt 5), (''text'', JStr [])]))
       initial_state =
     (\<lparr>status = 400,
       body = [(''ok'', JBool False),
               (''error'', JStr (lit ''entity, message_id, and text are required''))]\<rparr>,
      initial_state)
   \<and> handle_edit_message stub_backend
       (Inr (JObj [(''entity'', JStr (lit ''@ann'')), (''message_id'', JInt 0), (''text'', JStr (lit ''hi''))]))
       initial_state =
     (\<lparr>status = 400,
       body = [(''ok'', JBool False),
               (''error'', JStr (lit ''entity, message_id, and text are required''))]\<rparr>,
      initial_state)
   \<and> Edit_message (JStr (lit ''@ann'')) (JInt 5) (JStr (lit ''hi''))
       \<in> set (trace (snd (handle_edit_message stub_backend
            (Inr (JObj [(''entity'', JStr (lit ''@ann'')), (''message_id'', JInt 5),
                        (''text'', JStr (lit ''hi''))]))
            initial_state)))
   \<and> truthy (JInt 5) \<and> truthy (JStr (lit ''hi''))"
proof -
  have run: "Edit_message (JStr (lit ''@ann'')) (JInt 5) (JStr (lit ''hi''))
       \<in> set (trace (snd (handle_edit_message stub_backend
            (Inr (JObj [(''entity'', JStr (lit ''@ann'')), (''message_id'', JInt 5),
                        (''text'', JStr (lit ''hi''))]))
            initial_state)))"
    by (simp add: handle_edit_message_def request_data_def dict_get_def serve_def
          get_client_def is_authorized_def connect_def client_def edit_message_def
          stub_backend_def initial_state_def issue_def)
  show ?thesis
    using run
      edit_message_rejects_empty
        [of "[(''entity'', JStr (lit ''@ann'')), (''message_id'', JInt 5), (''text'', JStr [])]"
            stub_backend initial_state "JStr (lit ''@ann'')" "JInt 5" "JStr (lit ''hi'')"
            "Inr (JObj [(''entity'', JStr (lit ''@ann'')), (''message_id'', JInt 5),
                        (''text'', JStr (lit ''hi''))])"]
      edit_message_rejects_empty
        [of "[(''entity'', JStr (lit ''@ann'')), (''message_id'', JInt 0), (''text'', JStr (lit ''hi''))]"
            stub_backend initial_state "JStr (lit ''@ann'')" "JInt 5" "JStr (lit ''hi'')"
            "Inr (JObj [(''entity'', JStr (lit ''@ann'')), (''message_id'', JInt 5),
                        (''text'', JStr (lit ''hi''))])"]
    by (simp add: required_response_def json_response_def initial_state_def)
qed

text \<open>
  C2, as stated, fails: \<open>message\<close> is a field of the \<open>send_message\<close> body, yet a
  request that leaves it out is not rejected. The handler substitutes the empty string
  and the message is sent.
\<close>

theorem send_message_without_message_reaches_backend:
  "handle_send_message stub_backend (Inr (JObj [(''entity'', JStr (lit ''@ann''))])) initial_state =
     (\<lparr>status = 200,
       body = [(''ok'', JBool True), (''message_id'', JInt 7), (''chat_id'', JInt 9)]\<rparr>,
      \<lparr>have_user_client = True, have_tg_client = True, connected = True,
       trace = [Construct, Connect, Is_user_authorized,
                Send_message (JStr (lit ''@ann'')) (JStr []) JNull]\<rparr>)"
  by (simp add: handle_send_message_def request_data_def dict_get_def dict_get_default_def
        serve_def get_client_def is_authorized_def connect_def client_def send_message_def
        stub_backend_def initial_state_def issue_def ok_response_def json_response_def
        dict_set_def)

text \<open>
  C2, amended. A POST request in which a field its handler validates is absent or falsy
  is answered with status 400, \<open>ok = false\<close> and the handler's fixed text
  ("entity is required", "entity and file_path are required", ...), and the state is
  left as it was: no request reaches the backend. The validated fields are those of
  \<open>validated_fields\<close>; \<open>message\<close> of \<open>send_message\<close> is not among them: when it
  is absent the client is called with the empty string.
\<close>

theorem request_missing_validated_field_is_rejected:
  "(k \<in> set (validated_fields r) \<and> \<not> truthy (dict_get data k) \<longrightarrow>
      handle r be (Inr (JObj data)) s = (required_response (rejection_text r), s))
   \<and> (truthy (dict_get data ''entity'') \<and> map_of data ''message'' = None \<longrightarrow>
      handle_send_message be (Inr (JObj data)) s =
        serve be (send_message be (dict_get data ''entity'') (JStr [])
                    (dict_get data ''reply_to'')) s)"
proof
  show "k \<in> set (validated_fields r) \<and> \<not> truthy (dict_get data k) \<longrightarrow>
      handle r be (Inr (JObj data)) s = (required_response (rejection_text r), s)"
  proof
    assume a: "k \<in> set (validated_fields r) \<and> \<not> truthy (dict_get data k)"
    show "handle r be (Inr (JObj data)) s = (required_response (rejection_text r), s)"
    proof (cases r)
      case Send_message_route
      with a show ?thesis by (auto simp add: handle_send_message_def request_data_def)
    next
      case Send_file_route
      with a show ?thesis by (auto simp add: handle_send_file_def request_data_def)
    next
      case Get_messages_route
      with a show ?thesis by (auto simp add: handle_get_messages_def request_data_def)
    next
      case Search_dialogs_route
      with a show ?thesis by simp
    next
      case Download_media_route
      with a show ?thesis by (auto simp add: handle_download_media_def request_data_def)
    next
      case Edit_message_route
      with a show ?thesis by (auto simp add: handle_edit_message_def request_data_def)
    next
      case Delete_messages_route
      with a show ?thesis
        by (auto simp add: handle_delete_messages_def request_data_def dict_get_def
              dict_get_default_def split: option.splits)
    qed
  qed
next
  show "truthy (dict_get data ''entity'') \<and> map_of data ''message'' = None \<longrightarrow>
      handle_send_message be (Inr (JObj data)) s =
        serve be (send_message be (dict_get data ''entity'') (JStr [])
                    (dict_get data ''reply_to'')) s"
    by (simp add: handle_send_message_def request_data_def dict_get_default_def)
qed

theorem request_missing_validated_field_is_rejected_witness:
  "handle Download_media_route stub_backend
       (Inr (JObj [(''entity'', JStr (lit ''@ann'')), (''message_id'', JInt 5)])) initial_state =
     (\<lparr>status = 400,
       body = [(''ok'', JBool False),
               (''error'', JStr (lit ''entity, message_id, and save_path are required''))]\<rparr>,
      initial_state)
   \<and> handle_send_message stub_backend (Inr (JObj [(''entity'', JStr (lit ''@ann''))])) initial_state =
       serve stub_backend (send_message stub_backend (JStr (lit ''@ann'')) (JStr []) JNull)
         initial_state"
  using request_missing_validated_field_is_rejected
          [of "''save_path''" Download_media_route
              "[(''entity'', JStr (lit ''@ann'')), (''message_id'', JInt 5)]" stub_backend initial_state]
        request_missing_validated_field_is_rejected
          [of "''save_path''" Download_media_route
              "[(''entity'', JStr (lit ''@ann''))]" stub_backend initial_state]
  by (simp add: dict_get_def required_response_def json_response_def)

text \<open>
  C4, as stated, fails for \<open>UserClient.send_file\<close>: it connects before it looks at the
  path. On a client that is not connected yet, with a path that does not exist and a
  backend that refuses the connection, the constructor and \<open>connect\<close> are called and
  the error is the connection's, not \<open>FileNotFoundError\<close>.
\<close>

theorem send_file_connection_error_before_file_check:
  "\<not> path_exists (stub_backend\<lparr>connect_error := Some (Exn BackendError (lit ''Connection refused''))\<rparr>)
        (lit ''/no/such/file'')
   \<and> send_file (stub_backend\<lparr>connect_error := Some (Exn BackendError (lit ''Connection refused''))\<rparr>)
       (JStr (lit ''@ann'')) (JStr (lit ''/no/such/file'')) (JStr []) (JBool False) initial_state =
     (Inl (Exn BackendError (lit ''Connection refused'')),
      \<lparr>have_user_client = False, have_tg_client = True, connected = False,
       trace = [Construct, Connect]\<rparr>)"
  by (simp add: send_file_def connect_def client_def stub_backend_def initial_state_def issue_def)

text \<open>
  C4, amended. For a path for which \<open>Path.exists()\<close> is false: the handler answers
  status 400, "File not found: <path>", leaving the state as it was (no request reaches
  the backend); \<open>UserClient.send_file\<close> first ensures the connection and, if that
  succeeds, raises \<open>FileNotFoundError\<close>, so the only requests it can make are the
  constructor's and \<open>connect\<close>, never the upload, and none at all on a client that is
  already connected.
\<close>

theorem send_file_to_missing_path:
  assumes "\<not> path_exists be p" and "p \<noteq> []"
  shows "(truthy (dict_get data ''entity'') \<and> dict_get data ''file_path'' = JStr p \<longrightarrow>
            handle_send_file be (Inr (JObj data)) s =
              (json_response
                 [(''ok'', JBool False), (''error'', JStr (lit ''File not found: '' @ p))] 400, s))
       \<and> send_file be entity (JStr p) caption voice s =
           (case connect be s of
              (Some e, s1) \<Rightarrow> (Inl e, s1)
            | (None, s1) \<Rightarrow> (Inl (Exn FileNotFoundError (lit ''File not found: '' @ p)), s1))
       \<and> (\<exists>cs. trace (snd (send_file be entity (JStr p) caption voice s)) = trace s @ cs
                \<and> set cs \<subseteq> {Construct, Connect})
       \<and> (have_tg_client s \<and> connected s \<longrightarrow>
            send_file be entity (JStr p) caption voice s =
              (Inl (Exn FileNotFoundError (lit ''File not found: '' @ p)), s))"
proof -
  have handler: "truthy (dict_get data ''entity'') \<and> dict_get data ''file_path'' = JStr p \<longrightarrow>
            handle_send_file be (Inr (JObj data)) s =
              (json_response
                 [(''ok'', JBool False), (''error'', JStr (lit ''File not found: '' @ p))] 400, s)"
    using assms by (simp add: handle_send_file_def request_data_def as_path_def)
  have client_side: "send_file be entity (JStr p) caption voice s =
           (case connect be s of
              (Some e, s1) \<Rightarrow> (Inl e, s1)
            | (None, s1) \<Rightarrow> (Inl (Exn FileNotFoundError (lit ''File not found: '' @ p)), s1))"
    using assms by (simp add: send_file_def as_path_def split: prod.splits option.splits)
  obtain r0 s0 where c: "connect be s = (r0, s0)" by (cases "connect be s") auto
  from client_side c have "snd (send_file be entity (JStr p) caption voice s) = s0"
    by (cases r0) simp_all
  with connect_trace [OF c]
  have calls: "\<exists>cs. trace (snd (send_file be entity (JStr p) caption voice s)) = trace s @ cs
                \<and> set cs \<subseteq> {Construct, Connect}" by simp
  have already: "have_tg_client s \<and> connected s \<longrightarrow>
            send_file be entity (JStr p) caption voice s =
              (Inl (Exn FileNotFoundError (lit ''File not found: '' @ p)), s)"
    using client_side by (simp add: connect_when_connected)
  from handler client_side calls already show ?thesis by blast
qed

theorem send_file_to_missing_path_witness:
  "handle_send_file stub_backend
       (Inr (JObj [(''entity'', JStr (lit ''@ann'')), (''file_path'', JStr (lit ''/no/such/file''))]))
       initial_state =
     (\<lparr>status = 400,
       body = [(''ok'', JBool False), (''error'', JStr (lit ''File not found: /no/such/file''))]\<rparr>,
      initial_state)
   \<and> send_file stub_backend (JStr (lit ''@ann'')) (JStr (lit ''/no/such/file'')) (JStr []) (JBool False)
       initial_state =
     (Inl (Exn FileNotFoundError (lit ''File not found: /no/such/file'')), connected_state)
   \<and> send_file stub_backend (JStr (lit ''@ann'')) (JStr (lit ''/no/such/file'')) (JStr []) (JBool False)
       connected_state =
     (Inl (Exn FileNotFoundError (lit ''File not found: /no/such/file'')), connected_state)"
proof -
  have e: "\<not> path_exists stub_backend (lit ''/no/such/file'')" by (simp add: stub_backend_def)
  have n: "lit ''/no/such/file'' \<noteq> []" by simp
  have c: "connect stub_backend initial_state = (None, connected_state)"
    by (rule connect_stub_backend) (simp_all add: stub_backend_def)
  note fresh = send_file_to_missing_path [OF e n,
        of "[(''entity'', JStr (lit ''@ann'')), (''file_path'', JStr (lit ''/no/such/file''))]"
           initial_state "JStr (lit ''@ann'')" "JStr []" "JBool False"]
  note again = send_file_to_missing_path [OF e n,
        of "[(''entity'', JStr (lit ''@ann'')), (''file_path'', JStr (lit ''/no/such/file''))]"
           connected_state "JStr (lit ''@ann'')" "JStr []" "JBool False"]
  from fresh have handler: "handle_send_file stub_backend
       (Inr (JObj [(''entity'', JStr (lit ''@ann'')), (''file_path'', JStr (lit ''/no/such/file''))]))
       initial_state =
     (\<lparr>status = 400,
       body = [(''ok'', JBool False), (''error'', JStr (lit ''File not found: /no/such/file''))]\<rparr>,
      initial_state)"
    by (simp add: dict_get_def json_response_def lit_append [symmetric])
  from fresh c have first: "send_file stub_backend (JStr (lit ''@ann'')) (JStr (lit ''/no/such/file''))
       (JStr []) (JBool False) initial_state =
     (Inl (Exn FileNotFoundError (lit ''File not found: /no/such/file'')), connected_state)"
    by (simp add: lit_append [symmetric])
  have ready: "have_tg_client connected_state \<and> connected connected_state"
    by (simp add: connected_state_def)
  from again ready have "send_file stub_backend (JStr (lit ''@ann'')) (JStr (lit ''/no/such/file''))
       (JStr []) (JBool False) connected_state =
     (Inl (Exn FileNotFoundError (lit ''File not found: '' @ lit ''/no/such/file'')), connected_state)"
    by blast
  then have second: "send_file stub_backend (JStr (lit ''@ann'')) (JStr (lit ''/no/such/file''))
       (JStr []) (JBool False) connected_state =
     (Inl (Exn FileNotFoundError (lit ''File not found: /no/such/file'')), connected_state)"
    by (simp add: lit_append [symmetric])
  from handler first second show ?thesis by blast
qed

section \<open>Properties of the lifecycle\<close>

lemma py_int_777: "py_int ''777'' = Some 777"
  by (simp add: py_int_def strip_def is_space_def unsigned_def digit_val_def max_str_digits_def)

lemma py_int_2147483648: "py_int ''2147483648'' = Some 2147483648"
  by (simp add: py_int_def strip_def is_space_def unsigned_def digit_val_def max_str_digits_def)

lemma str_int_4242: "str_int 4242 = ''4242''"
  by (simp add: str_int_def str_nat.simps digit_char_def)

lemma os_kill_cases:
  "os_kill h pid = Signalled \<longleftrightarrow> pid \<in> set (alive h)"
  "os_kill h pid = No_process \<longleftrightarrow> pid \<notin> set (alive h) \<and> - (2 ^ 31) \<le> pid \<and> pid < 2 ^ 31"
  "os_kill h pid = Out_of_range \<longleftrightarrow> pid \<notin> set (alive h) \<and> \<not> (- (2 ^ 31) \<le> pid \<and> pid < 2 ^ 31)"
  by (auto simp add: os_kill_def)

text \<open>
  A recorded identifier that does not fit a C \<open>int\<close>: \<open>os.kill\<close> raises
  \<open>OverflowError\<close>, which neither \<open>stop\<close> nor \<open>start\<close> catches. Nothing is printed or
  logged and the pid file stays.
\<close>

lemma unrepresentable_pid_raises:
  "daemon_stop overflow_host = Stop_overflow 2147483648"
  "cli_daemon_stop overflow_host = Stop_overflow 2147483648"
  "run_daemon stub_backend overflow_host =
     \<lparr>outcome = Raised_overflow 2147483648, host_after = overflow_host,
      state_after = initial_state, events = []\<rparr>"
  by (simp_all add: daemon_stop_def cli_daemon_stop_def run_daemon_def existing_daemon_def
        os_kill_def overflow_host_def fresh_host_def stub_backend_def py_int_2147483648)

text \<open>
  C3, as stated, fails: with a pid file that names process 777 and no such process,
  both \<open>stop\<close> commands print the failure line carrying the operating system's error,
  not "Daemon not running".
\<close>

theorem stop_on_stale_record_prints_failure:
  "daemon_stop stale_host = Stop_returned fresh_host [Failed_to_stop (No_such_process 777)]
   \<and> cli_daemon_stop stale_host
       = Stop_returned fresh_host [Failed_to_stop (No_such_process 777)]
   \<and> [Failed_to_stop (No_such_process 777)] \<noteq> [Daemon_not_running]"
  by (simp add: daemon_stop_def cli_daemon_stop_def os_kill_def stale_host_def fresh_host_def
        py_int_777)

text \<open>
  C3, amended. \<open>stop\<close> on a stale record (the file holds an integer that fits the
  platform's process identifier type and \<open>os.kill\<close> does not return for it, so it
  raises \<open>OSError\<close>) prints "Failed to stop ..." with the error, removes the pid file,
  signals nothing and returns; the \<open>stop\<close> after it prints "Daemon not running" and
  returns. This holds for \<open>daemon_stop\<close> of daemon.py and of cli.py.
\<close>

theorem stop_on_stale_record:
  assumes "pid_file h = Some recorded" and "py_int recorded = Some pid"
    and "pid \<notin> set (alive h)" and "- (2 ^ 31) \<le> pid" and "pid < 2 ^ 31"
  shows "daemon_stop h
           = Stop_returned (h\<lparr>pid_file := None\<rparr>) [Failed_to_stop (No_such_process pid)]
       \<and> cli_daemon_stop h
           = Stop_returned (h\<lparr>pid_file := None\<rparr>) [Failed_to_stop (No_such_process pid)]
       \<and> daemon_stop (h\<lparr>pid_file := None\<rparr>)
           = Stop_returned (h\<lparr>pid_file := None\<rparr>) [Daemon_not_running]
       \<and> cli_daemon_stop (h\<lparr>pid_file := None\<rparr>)
           = Stop_returned (h\<lparr>pid_file := None\<rparr>) [Daemon_not_running]"
  using assms by (simp add: daemon_stop_def cli_daemon_stop_def os_kill_def)

theorem stop_on_stale_record_witness:
  "daemon_stop stale_host = Stop_returned fresh_host [Failed_to_stop (No_such_process 777)]
   \<and> cli_daemon_stop stale_host
       = Stop_returned fresh_host [Failed_to_stop (No_such_process 777)]
   \<and> daemon_stop fresh_host = Stop_returned fresh_host [Daemon_not_running]
   \<and> cli_daemon_stop fresh_host = Stop_returned fresh_host [Daemon_not_running]"
proof -
  have f: "pid_file stale_host = Some ''777''" by (simp add: stale_host_def)
  have a: "777 \<notin> set (alive stale_host)" by (simp add: stale_host_def fresh_host_def)
  have lo: "- (2 ^ 31) \<le> (777 :: int)" by simp
  have hi: "(777 :: int) < 2 ^ 31" by simp
  have r: "stale_host\<lparr>pid_file := None\<rparr> = fresh_host"
    by (simp add: stale_host_def fresh_host_def)
  show ?thesis using stop_on_stale_record [OF f py_int_777 a lo hi] by (simp add: r)
qed

text \<open>
  C5, as stated, fails: \<open>run_daemon\<close> looks at the configuration before it looks at
  the pid file. With a live daemon recorded and the account not configured, it reports
  "User not configured", not "already running".
\<close>

theorem start_unconfigured_does_not_report_running:
  "pid_file running_host = Some ''777'' \<and> py_int ''777'' = Some 777
   \<and> 777 \<in> set (alive running_host)
   \<and> run_daemon (stub_backend\<lparr>is_configured := False\<rparr>) running_host =
       \<lparr>outcome = Exited 1, host_after = running_host, state_after = initial_state,
        events = [Logged User_not_configured]\<rparr>"
  by (simp add: run_daemon_def running_host_def fresh_host_def stub_backend_def py_int_777)

text \<open>
  C5, amended. When the pid file holds the identifier of a live process, \<open>run_daemon\<close>
  logs "Daemon already running (PID n)" if the account is configured and
  "User not configured" if it is not; either way it exits with status 1, leaves the
  host as it was and constructs neither a \<open>UserClient\<close> nor a \<open>TelegramClient\<close> (the
  state stays the initial one, with an empty trace). The command line's \<open>start\<close>
  prints "Daemon is already running" when the health probe answers, and the only
  process it ever starts is \<open>run_daemon\<close> on this host.
\<close>

theorem start_while_running:
  assumes "pid_file h = Some recorded" and "py_int recorded = Some pid"
    and "pid \<in> set (alive h)"
  shows "(is_configured be \<longrightarrow>
            run_daemon be h =
              \<lparr>outcome = Exited 1, host_after = h, state_after = initial_state,
               events = [Logged (Daemon_already_running pid)]\<rparr>)
       \<and> (\<not> is_configured be \<longrightarrow>
            run_daemon be h =
              \<lparr>outcome = Exited 1, host_after = h, state_after = initial_state,
               events = [Logged User_not_configured]\<rparr>)
       \<and> state_after (run_daemon be h) = initial_state
       \<and> (is_daemon_running (health_probes h) \<longrightarrow>
            cli_daemon_start be h foreground =
              \<lparr>cli_outcome = Returned, cli_lines = [Daemon_is_already_running], child = None\<rparr>)
       \<and> (child (cli_daemon_start be h foreground) = None
            \<or> child (cli_daemon_start be h foreground) = Some (run_daemon be h))"
  using assms
  by (simp add: run_daemon_def existing_daemon_def os_kill_def cli_daemon_start_def)

theorem start_while_running_witness:
  "run_daemon stub_backend running_host =
     \<lparr>outcome = Exited 1, host_after = running_host, state_after = initial_state,
      events = [Logged (Daemon_already_running 777)]\<rparr>
   \<and> run_daemon (stub_backend\<lparr>is_configured := False\<rparr>) running_host =
     \<lparr>outcome = Exited 1, host_after = running_host, state_after = initial_state,
      events = [Logged User_not_configured]\<rparr>
   \<and> cli_daemon_start stub_backend running_host False =
       \<lparr>cli_outcome = Returned, cli_lines = [Daemon_is_already_running], child = None\<rparr>
   \<and> trace initial_state = [] \<and> have_tg_client initial_state = False
   \<and> have_user_client initial_state = False"
proof -
  have f: "pid_file running_host = Some ''777''" by (simp add: running_host_def)
  have a: "777 \<in> set (alive running_host)" by (simp add: running_host_def)
  have c: "is_configured stub_backend" by (simp add: stub_backend_def)
  have u: "\<not> is_configured (stub_backend\<lparr>is_configured := False\<rparr>)" by simp
  have p: "is_daemon_running (health_probes running_host)"
    by (simp add: running_host_def is_daemon_running_def)
  show ?thesis
    using start_while_running [OF f py_int_777 a, of stub_backend False]
      start_while_running [OF f py_int_777 a, of "stub_backend\<lparr>is_configured := False\<rparr>" False]
      c u p
    by (simp add: initial_state_def)
qed

text \<open>
  C1, as stated, fails: the pid file is the first thing a start writes, before the
  client is constructed and the connection made, and \<open>run_daemon\<close> never asks whether
  the session is authorized. On an unauthorized session \<open>get_me\<close> returns the empty
  profile and the daemon serves with the record in place.
\<close>

theorem start_unauthorized_serves_with_record:
  "authorized (stub_backend\<lparr>me := Inr None, authorized := Inr False\<rparr>) = Inr False
   \<and> run_daemon (stub_backend\<lparr>me := Inr None, authorized := Inr False\<rparr>) fresh_host =
       \<lparr>outcome = Serving,
        host_after = fresh_host\<lparr>pid_file := Some ''4242''\<rparr>,
        state_after = \<lparr>have_user_client = True, have_tg_client = True, connected = True,
                       trace = [Construct, Connect, Get_me]\<rparr>,
        events = [Pid_written ''4242'', User_client_constructed, Backend Construct,
                  Backend Connect, Backend Get_me, Logged (Connected_as JNull JNull),
                  Logged Daemon_listening]\<rparr>"
  by (simp add: run_daemon_def existing_daemon_def fresh_host_def stub_backend_def
        initial_state_def get_me_def connect_def client_def issue_def str_int_4242 dict_get_def)

text \<open>
  C1, amended. A start that finds the account configured and no daemon running (there
  is no pid file, or its text is not an integer, or \<open>os.kill\<close> raises \<open>OSError\<close> for the
  integer) writes the pid file first, before it constructs the client and before any
  request to the backend. If connecting or fetching the profile raises an
  \<open>Exception\<close>, the file is removed again and the start exits with status 1, leaving
  no record. If the profile is returned (be it the empty profile of an unauthorized
  session) and the listener binds, the daemon serves with the record in place. A start
  that finds the account not configured, or a daemon running, exits with status 1,
  writes no record and leaves the host as it was.
\<close>

theorem start_writes_record_first:
  "(is_configured be \<and> existing_daemon h = Not_running \<longrightarrow>
      take 2 (events (run_daemon be h))
        = [Pid_written (str_int (own_pid h)), User_client_constructed]
      \<and> (\<forall>e s1. get_me be (initial_state\<lparr>have_user_client := True\<rparr>) = (Inl e, s1) \<longrightarrow>
            run_daemon be h =
              \<lparr>outcome = Exited 1, host_after = h\<lparr>pid_file := None\<rparr>, state_after = s1,
               events = [Pid_written (str_int (own_pid h)), User_client_constructed]
                 @ map Backend (trace s1) @ [Logged (Failed_to_connect e), Pid_removed]\<rparr>)
      \<and> (\<forall>profile s1.
            get_me be (initial_state\<lparr>have_user_client := True\<rparr>) = (Inr profile, s1)
            \<and> bind_error h = None \<longrightarrow>
            outcome (run_daemon be h) = Serving
            \<and> host_after (run_daemon be h) = h\<lparr>pid_file := Some (str_int (own_pid h))\<rparr>))
   \<and> (\<not> is_configured be \<or> (\<exists>old_pid. existing_daemon h = Running old_pid) \<longrightarrow>
      outcome (run_daemon be h) = Exited 1
      \<and> host_after (run_daemon be h) = h
      \<and> (\<forall>recorded. Pid_written recorded \<notin> set (events (run_daemon be h))))"
proof
  show "is_configured be \<and> existing_daemon h = Not_running \<longrightarrow>
      take 2 (events (run_daemon be h))
        = [Pid_written (str_int (own_pid h)), User_client_constructed]
      \<and> (\<forall>e s1. get_me be (initial_state\<lparr>have_user_client := True\<rparr>) = (Inl e, s1) \<longrightarrow>
            run_daemon be h =
              \<lparr>outcome = Exited 1, host_after = h\<lparr>pid_file := None\<rparr>, state_after = s1,
               events = [Pid_written (str_int (own_pid h)), User_client_constructed]
                 @ map Backend (trace s1) @ [Logged (Failed_to_connect e), Pid_removed]\<rparr>)
      \<and> (\<forall>profile s1.
            get_me be (initial_state\<lparr>have_user_client := True\<rparr>) = (Inr profile, s1)
            \<and> bind_error h = None \<longrightarrow>
            outcome (run_daemon be h) = Serving
            \<and> host_after (run_daemon be h) = h\<lparr>pid_file := Some (str_int (own_pid h))\<rparr>)"
    by (auto simp add: run_daemon_def split: prod.splits sum.splits option.splits)
next
  show "\<not> is_configured be \<or> (\<exists>old_pid. existing_daemon h = Running old_pid) \<longrightarrow>
      outcome (run_daemon be h) = Exited 1
      \<and> host_after (run_daemon be h) = h
      \<and> (\<forall>recorded. Pid_written recorded \<notin> set (events (run_daemon be h)))"
    by (auto simp add: run_daemon_def)
qed

theorem start_writes_record_first_witness:
  "run_daemon (stub_backend\<lparr>connect_error := Some (Exn BackendError (lit ''Connection refused''))\<rparr>)
       stale_host =
     \<lparr>outcome = Exited 1, host_after = fresh_host,
      state_after = \<lparr>have_user_client = True, have_tg_client = True, connected = False,
                     trace = [Construct, Connect]\<rparr>,
      events = [Pid_written ''4242'', User_client_constructed, Backend Construct,
                Backend Connect,
                Logged (Failed_to_connect (Exn BackendError (lit ''Connection refused''))),
                Pid_removed]\<rparr>
   \<and> outcome (run_daemon stub_backend stale_host) = Serving
   \<and> host_after (run_daemon stub_backend stale_host) = fresh_host\<lparr>pid_file := Some ''4242''\<rparr>
   \<and> take 2 (events (run_daemon stub_backend stale_host))
       = [Pid_written ''4242'', User_client_constructed]
   \<and> outcome (run_daemon stub_backend running_host) = Exited 1
   \<and> host_after (run_daemon stub_backend running_host) = running_host"
proof -
  let ?refusing =
    "stub_backend\<lparr>connect_error := Some (Exn BackendError (lit ''Connection refused''))\<rparr>"
  have none: "existing_daemon stale_host = Not_running"
    by (simp add: existing_daemon_def os_kill_def stale_host_def fresh_host_def py_int_777)
  have some: "\<exists>old_pid. existing_daemon running_host = Running old_pid"
    by (simp add: existing_daemon_def os_kill_def running_host_def py_int_777)
  have conf: "is_configured stub_backend" "is_configured ?refusing"
    by (simp_all add: stub_backend_def)
  have own: "str_int (own_pid stale_host) = ''4242''"
    by (simp add: stale_host_def fresh_host_def str_int_4242)
  have gone: "stale_host\<lparr>pid_file := None\<rparr> = fresh_host"
    by (simp add: stale_host_def fresh_host_def)
  have kept: "stale_host\<lparr>pid_file := Some ''4242''\<rparr> = fresh_host\<lparr>pid_file := Some ''4242''\<rparr>"
    by (simp add: stale_host_def)
  have binds: "bind_error stale_host = None"
    by (simp add: stale_host_def fresh_host_def)
  have fails: "get_me ?refusing (initial_state\<lparr>have_user_client := True\<rparr>) =
      (Inl (Exn BackendError (lit ''Connection refused'')),
       \<lparr>have_user_client = True, have_tg_client = True, connected = False,
        trace = [Construct, Connect]\<rparr>)"
    by (simp add: get_me_def connect_def client_def stub_backend_def initial_state_def issue_def)
  obtain profile s1 where works:
    "get_me stub_backend (initial_state\<lparr>have_user_client := True\<rparr>) = (Inr profile, s1)"
    by (simp add: get_me_def connect_def client_def stub_backend_def initial_state_def issue_def)
  from start_writes_record_first [of ?refusing stale_host] conf none fails
  have first: "run_daemon ?refusing stale_host =
     \<lparr>outcome = Exited 1, host_after = fresh_host,
      state_after = \<lparr>have_user_client = True, have_tg_client = True, connected = False,
                     trace = [Construct, Connect]\<rparr>,
      events = [Pid_written ''4242'', User_client_constructed, Backend Construct,
                Backend Connect,
                Logged (Failed_to_connect (Exn BackendError (lit ''Connection refused''))),
                Pid_removed]\<rparr>"
    by (simp add: own gone)
  from start_writes_record_first [of stub_backend stale_host] conf none works binds
  have second: "outcome (run_daemon stub_backend stale_host) = Serving
     \<and> host_after (run_daemon stub_backend stale_host) = fresh_host\<lparr>pid_file := Some ''4242''\<rparr>
     \<and> take 2 (events (run_daemon stub_backend stale_host))
         = [Pid_written ''4242'', User_client_constructed]"
    by (simp add: own kept)
  from start_writes_record_first [of stub_backend running_host] some
  have third: "outcome (run_daemon stub_backend running_host) = Exited 1
     \<and> host_after (run_daemon stub_backend running_host) = running_host"
    by blast
  from first second third show ?thesis by blast
qed

end
